theory Spec2Isabelle
  imports Complex_Main
begin

section \<open>The anti-theft alarm: data model\<close>

text \<open>
  The development follows the \<open>App\<close> component (the React function component that holds
  the whole detection core). A JavaScript number is modelled by the \<^typ>\<open>real\<close> it denotes:
  the finite doubles are the values of \<open>fl\<close> below, and the arithmetic of the handlers
  (\<open>-\<close>, \<open>*\<close>, \<open>+\<close>, \<open>Math.sqrt\<close>) rounds every result to the nearest double as IEEE 754
  prescribes; \<open>Math.abs\<close> and the comparisons are exact on doubles. NaN and the
  infinities are not represented. A value of type \<open>number | null | undefined\<close> is a
  \<^typ>\<open>real option\<close>. Message texts are the source's Portuguese texts with every accented
  letter written as its base letter (one character each, as in the source's UTF-16 strings).
\<close>

type_synonym vec3 = "real \<times> real \<times> real"

record Coordinates =
  latitude :: real
  longitude :: real
  accuracy :: real

text \<open>\<open>LogEntry\<close> of \<open>types.ts\<close>; the field \<open>id\<close> is written \<open>id'\<close>.\<close>

record LogEntry =
  id' :: string
  timestamp :: string
  message :: string
  coordinates :: "Coordinates option"

text \<open>
  The two clock reads of a log entry: \<open>Date.now()\<close> (milliseconds, an integer) and
  \<open>new Date().toLocaleString('pt-BR')\<close> (a text produced by the platform).
\<close>

record Clock =
  dateNow :: nat
  toLocaleString :: string

datatype AudioContextState = Suspended | Running | Closed

text \<open>
  What the browser offers: the outcome of \<open>new AudioContext()\<close> (\<open>None\<close> when the
  constructor throws, otherwise the state of the fresh context), whether
  \<open>navigator.geolocation\<close> exists, and \<open>Number.prototype.toFixed\<close> (digits, number).
\<close>

record Platform =
  audioCtor :: "AudioContextState option"
  hasGeolocation :: bool
  toFixed :: "nat \<Rightarrow> real \<Rightarrow> string"

text \<open>The callbacks handed to \<open>setTimeout\<close> and \<open>setInterval\<close>.\<close>

datatype Callback = ArmingDelayElapsed | SirenBurst | ActivationLog

datatype Timer = Timer (timerId: nat) (callback: Callback) (delay: nat) (repeats: bool)

text \<open>
  The state of the component. The first group are the \<open>useState\<close> cells (a setter call
  is an assignment here: the value the next render sees), the second group the
  \<open>useRef\<close> cells in the order of the source, the third group what the platform holds
  for the component: the pending timers, the counter of timer ids, the number of siren
  bursts started so far (the oscillator and the gain node of a burst are named by its
  number; waveform, frequency ramp and gain value are not represented), the detection
  sources of the geolocation requests in flight, and the timer that the cleanup function
  of the activation-log effect would clear.
\<close>

record App =
  isServiceActive :: bool
  isArming :: bool
  logs :: "LogEntry list"
  isAlarmPlaying :: bool
  errorMessage :: "string option"
  supportedSensors :: "string list"
  lastAccelRef :: "vec3 option"
  armingTimeoutRef :: "nat option"
  audioContextRef :: "AudioContextState option"
  oscillatorRef :: "nat option"
  gainNodeRef :: "nat option"
  alarmIntervalRef :: "nat option"
  lastIlluminanceRef :: "real option"
  lastMagnetometerReadingRef :: "vec3 option"
  lastPressureRef :: "real option"
  isAlarmPlayingRef :: bool
  isServiceActiveRef :: bool
  isArmingRef :: bool
  supportedSensorsRef :: "string list"
  prevIsArmingRef :: "bool option"
  hasLoggedActivationRef :: bool
  timers :: "Timer list"
  nextTimerId :: nat
  burstsStarted :: nat
  geoRequests :: "string list"
  activationCleanup :: "nat option"

section \<open>Numbers\<close>

text \<open>
  The binary64 format: a finite double is an integer of at most 53 bits times a power of
  two, the exponent of its last place being at least -1074. \<open>quantum x\<close> is the exponent
  of the last place of the doubles around \<open>x\<close>, and \<open>fl x\<close> the double nearest to \<open>x\<close>,
  a tie going to the even neighbour. There is no largest double here: where the source
  would produce \<open>Infinity\<close> the model has a finite number of the same sign beyond all
  thresholds.
\<close>

definition pow2 :: "int \<Rightarrow> real" where
  "pow2 e = (if 0 \<le> e then 2 ^ nat e else 1 / 2 ^ nat (- e))"

definition roundTiesToEven :: "real \<Rightarrow> int" where
  "roundTiesToEven r =
     (let f = \<lfloor>r\<rfloor> in
      if r - of_int f < 1 / 2 then f
      else if r - of_int f > 1 / 2 then f + 1
      else if even f then f else f + 1)"

definition quantum :: "real \<Rightarrow> int" where
  "quantum x = max (\<lfloor>log 2 \<bar>x\<bar>\<rfloor> - 52) (- 1074)"

definition fl :: "real \<Rightarrow> real" where
  "fl x = (if x = 0 then 0
           else of_int (roundTiesToEven (x / pow2 (quantum x))) * pow2 (quantum x))"

text \<open>
  The operators \<open>a - b\<close>, \<open>a * b\<close>, \<open>a + b\<close> on numbers and \<open>Math.sqrt\<close>, each the exact
  result rounded once.
\<close>

definition jsSub :: "real \<Rightarrow> real \<Rightarrow> real" where
  "jsSub a b = fl (a - b)"

definition jsMul :: "real \<Rightarrow> real \<Rightarrow> real" where
  "jsMul a b = fl (a * b)"

definition jsAdd :: "real \<Rightarrow> real \<Rightarrow> real" where
  "jsAdd a b = fl (a + b)"

definition mathSqrt :: "real \<Rightarrow> real" where
  "mathSqrt x = fl (sqrt x)"

text \<open>
  The constants of the source. The literal \<open>0.6\<close> denotes the double nearest to 0.6;
  50, 5 and 20 are doubles themselves. The gyroscope threshold is compared with the bare
  axis values only, and no double lies between the double nearest to 0.7 and 0.7, so it
  is kept as the real 0.7.
\<close>

definition MOTION_THRESHOLD :: real where "MOTION_THRESHOLD = fl 0.6"
definition GYROSCOPE_THRESHOLD :: real where "GYROSCOPE_THRESHOLD = 0.7"
definition LIGHT_CHANGE_THRESHOLD_LUX :: real where "LIGHT_CHANGE_THRESHOLD_LUX = 50"
definition PROXIMITY_FALLBACK_THRESHOLD_CM :: real where "PROXIMITY_FALLBACK_THRESHOLD_CM = 5"
definition MAGNETOMETER_CHANGE_THRESHOLD_UT :: real where "MAGNETOMETER_CHANGE_THRESHOLD_UT = 20"
definition BAROMETER_CHANGE_THRESHOLD_PA :: real where "BAROMETER_CHANGE_THRESHOLD_PA = 20"
definition ARMING_DELAY_MS :: nat where "ARMING_DELAY_MS = 3000"
definition ALARM_SOUND_INTERVAL_MS :: nat where "ALARM_SOUND_INTERVAL_MS = 1000"

section \<open>Strings\<close>

text \<open>\<open>Number.prototype.toString\<close> on a non-negative integer: its decimal digits.\<close>

definition digit :: "nat \<Rightarrow> char" where
  "digit d = ''0123456789'' ! d"

function toString :: "nat \<Rightarrow> string" where
  "toString n = (if n < 10 then [digit n] else toString (n div 10) @ [digit (n mod 10)])"
  by pat_completeness auto
termination
  by (relation "measure (\<lambda>n. n)") auto

declare toString.simps [simp del]

text \<open>\<open>s.startsWith(p)\<close> and \<open>s.includes(p)\<close>.\<close>

definition startsWith :: "string \<Rightarrow> string \<Rightarrow> bool" where
  "startsWith s p = (take (length p) s = p)"

fun includesJS :: "string \<Rightarrow> string \<Rightarrow> bool" where
  "includesJS [] p = (p = [])"
| "includesJS (c # cs) p = (startsWith (c # cs) p \<or> includesJS cs p)"

text \<open>
  \<open>s.split(sep)\<close> for a non-empty separator; the second argument is the piece read so
  far. With an empty separator nothing is cut (the source never splits on one).
\<close>

function splitFrom :: "string \<Rightarrow> string \<Rightarrow> string \<Rightarrow> string list" where
  "splitFrom sep cur [] = [cur]"
| "splitFrom sep cur (c # cs) =
     (if sep \<noteq> [] \<and> startsWith (c # cs) sep
      then cur # splitFrom sep [] (drop (length sep) (c # cs))
      else splitFrom sep (cur @ [c]) cs)"
  by pat_completeness auto
termination
  by (relation "measure (\<lambda>(sep, cur, s). length s)") (auto simp: startsWith_def)

definition splitJS :: "string \<Rightarrow> string \<Rightarrow> string list" where
  "splitJS s sep = splitFrom sep [] s"

text \<open>\<open>xs.join(sep)\<close>.\<close>

fun joinJS :: "string list \<Rightarrow> string \<Rightarrow> string" where
  "joinJS [] sep = []"
| "joinJS [x] sep = x"
| "joinJS (x # y # ys) sep = x @ sep @ joinJS (y # ys) sep"

definition newline :: string where
  "newline = [CHR 0x0A]"

section \<open>Advisory text and incident log\<close>

text \<open>
  \<open>appendErrorMessage\<close>: \<open>setErrorMessage\<close> with the updater function
  \<open>prev => ...\<close>, here \<open>mergeErrorMessage\<close>. \<open>!prev\<close> holds for \<open>null\<close> and for the
  empty string; \<open>split(..)[0]\<close> always exists.
\<close>

definition mergeErrorMessage :: "string option \<Rightarrow> string \<Rightarrow> string" where
  "mergeErrorMessage prevMessage newMessage =
     (case prevMessage of
        None \<Rightarrow> newMessage
      | Some prev \<Rightarrow>
          if prev = [] then newMessage
          else
            let existingMessages = splitJS prev newline in
            if length existingMessages = 1 \<and> hd existingMessages = newMessage then prev
            else
              let newMessageBase = hd (splitJS (hd (splitJS newMessage '' ('')) '':'') in
              if \<exists>msg \<in> set existingMessages. includesJS msg newMessageBase then
                (if length newMessage >
                    (case find (\<lambda>msg. includesJS msg newMessageBase) existingMessages of
                       None \<Rightarrow> 0 | Some m \<Rightarrow> length m)
                 then joinJS (filter (\<lambda>msg. \<not> includesJS msg newMessageBase) existingMessages
                                @ [newMessage]) newline
                 else prev)
              else prev @ newline @ newMessage)"

definition appendErrorMessage :: "string \<Rightarrow> App \<Rightarrow> App" where
  "appendErrorMessage newMessage s =
     s\<lparr>errorMessage := Some (mergeErrorMessage (errorMessage s) newMessage)\<rparr>"

text \<open>\<open>addLogEntry\<close>: the new entry in front of the first 49 entries of the log.\<close>

definition newLog :: "Clock \<Rightarrow> string \<Rightarrow> Coordinates option \<Rightarrow> LogEntry" where
  "newLog clk msg coords =
     \<lparr>id' = toString (dateNow clk), timestamp = toLocaleString clk,
      message = msg, coordinates = coords\<rparr>"

definition addLogEntry :: "Clock \<Rightarrow> string \<Rightarrow> Coordinates option \<Rightarrow> App \<Rightarrow> App" where
  "addLogEntry clk msg coords s = s\<lparr>logs := newLog clk msg coords # take 49 (logs s)\<rparr>"

definition clearLogs :: "Clock \<Rightarrow> App \<Rightarrow> App" where
  "clearLogs clk s =
     s\<lparr>logs := [\<lparr>id' = toString (dateNow clk), timestamp = toLocaleString clk,
                 message = ''Logs limpos pelo usuario.'', coordinates = None\<rparr>]\<rparr>"

section \<open>Timers\<close>

text \<open>
  \<open>setTimeout\<close> and \<open>setInterval\<close> draw their ids from one counter; \<open>clearTimeout\<close> and
  \<open>clearInterval\<close> remove the timer with the given id, if it is still pending.
\<close>

definition setTimer :: "Callback \<Rightarrow> nat \<Rightarrow> bool \<Rightarrow> App \<Rightarrow> nat \<times> App" where
  "setTimer cb ms rep s =
     (nextTimerId s,
      s\<lparr>timers := timers s @ [Timer (nextTimerId s) cb ms rep],
        nextTimerId := Suc (nextTimerId s)\<rparr>)"

definition clearTimer :: "nat \<Rightarrow> App \<Rightarrow> App" where
  "clearTimer t s = s\<lparr>timers := filter (\<lambda>tm. timerId tm \<noteq> t) (timers s)\<rparr>"

text \<open>
  The idiom \<open>if (ref.current) clearTimeout(ref.current)\<close>: the test holds for a number
  other than 0 and fails for \<open>null\<close>.
\<close>

definition clearIfSet :: "nat option \<Rightarrow> App \<Rightarrow> App" where
  "clearIfSet r s = (case r of None \<Rightarrow> s | Some t \<Rightarrow> if t \<noteq> 0 then clearTimer t s else s)"

section \<open>Alarm engine\<close>

text \<open>
  \<open>getAudioContext\<close> returns the context's state, or \<open>None\<close> for \<open>null\<close>. The call of
  \<open>resume()\<close> on a suspended context only starts an asynchronous request: it changes
  nothing before the function returns.
\<close>

definition getAudioContext :: "Platform \<Rightarrow> App \<Rightarrow> AudioContextState option \<times> App" where
  "getAudioContext p s =
     (case audioContextRef s of
        None \<Rightarrow>
          (case audioCtor p of
             None \<Rightarrow>
               (None, appendErrorMessage
                  ''Seu navegador nao suporta audio, o alarme sonoro pode nao funcionar.'' s)
           | Some st \<Rightarrow> (Some st, s\<lparr>audioContextRef := Some st\<rparr>))
      | Some st \<Rightarrow> (Some st, s))"

definition playSirenBurst :: "Platform \<Rightarrow> App \<Rightarrow> App" where
  "playSirenBurst p s =
     (case getAudioContext p s of
        (audioCtx, s1) \<Rightarrow>
          if audioCtx \<noteq> Some Running then s1
          else s1\<lparr>oscillatorRef := Some (burstsStarted s1),
                  gainNodeRef := Some (burstsStarted s1),
                  burstsStarted := Suc (burstsStarted s1)\<rparr>)"

text \<open>The \<open>onended\<close> handler that \<open>playSirenBurst\<close> gives to the oscillator of burst \<open>n\<close>.\<close>

definition oscillatorEnded :: "nat \<Rightarrow> App \<Rightarrow> App" where
  "oscillatorEnded n s =
     (if oscillatorRef s = Some n then s\<lparr>oscillatorRef := None, gainNodeRef := None\<rparr> else s)"

definition startAlarmSound :: "Platform \<Rightarrow> App \<Rightarrow> App" where
  "startAlarmSound p s =
     (case getAudioContext p (clearIfSet (alarmIntervalRef s) s) of
        (audioCtx, s1) \<Rightarrow>
          if audioCtx = Some Running then
            (case setTimer SirenBurst ALARM_SOUND_INTERVAL_MS True (playSirenBurst p s1) of
               (t, s2) \<Rightarrow> s2\<lparr>alarmIntervalRef := Some t\<rparr>)
          else if audioCtx = Some Suspended then
            appendErrorMessage
              ''Audio suspenso. O alarme pode nao tocar. Clique na tela e reative o servico.'' s1
          else
            appendErrorMessage
              ''Nao e possivel reproduzir o alarme. Verifique as permissoes de audio.'' s1)"

definition stopAlarmSound :: "App \<Rightarrow> App" where
  "stopAlarmSound s =
     (let s1 = (case alarmIntervalRef s of
                  None \<Rightarrow> s
                | Some t \<Rightarrow> if t \<noteq> 0 then (clearTimer t s)\<lparr>alarmIntervalRef := None\<rparr> else s)
      in s1\<lparr>oscillatorRef := None, gainNodeRef := None\<rparr>)"

section \<open>Trigger path and state machine\<close>

text \<open>
  \<open>triggerAlarm\<close>. With geolocation present the request is only recorded; its success or
  error callback appends the log entry later (\<open>geoSuccess\<close>, \<open>geoError\<close>, the oldest
  request first).
\<close>

definition triggerAlarm :: "Platform \<Rightarrow> Clock \<Rightarrow> string \<Rightarrow> App \<Rightarrow> App" where
  "triggerAlarm p clk detectionSource s =
     (if \<not> isAlarmPlayingRef s then
        let s1 = startAlarmSound p (s\<lparr>isAlarmPlaying := True\<rparr>);
            s2 = s1\<lparr>errorMessage := Some (''ALERTA! '' @ detectionSource)\<rparr>
        in if hasGeolocation p then s2\<lparr>geoRequests := geoRequests s2 @ [detectionSource]\<rparr>
           else appendErrorMessage ''Geolocalizacao nao suportada''
                  (addLogEntry clk (detectionSource @ '' (Geolocalizacao nao suportada)'') None s2)
      else s)"

definition geoSuccess :: "Clock \<Rightarrow> Coordinates \<Rightarrow> App \<Rightarrow> App" where
  "geoSuccess clk coords s =
     (case geoRequests s of
        [] \<Rightarrow> s
      | detectionSource # rest \<Rightarrow>
          addLogEntry clk detectionSource (Some coords) (s\<lparr>geoRequests := rest\<rparr>))"

definition geoError :: "Clock \<Rightarrow> string \<Rightarrow> App \<Rightarrow> App" where
  "geoError clk errorText s =
     (case geoRequests s of
        [] \<Rightarrow> s
      | detectionSource # rest \<Rightarrow>
          appendErrorMessage (''Localizacao: '' @ errorText)
            (addLogEntry clk (detectionSource @ '' (Localizacao indisponivel)'') None
               (s\<lparr>geoRequests := rest\<rparr>)))"

definition stopAlarm :: "App \<Rightarrow> App" where
  "stopAlarm s =
     (let s1 = stopAlarmSound (s\<lparr>isAlarmPlaying := False\<rparr>);
          s2 = s1\<lparr>errorMessage := Some ''Alarme parado. Servico DESATIVADO.'',
                  isServiceActive := False,
                  isArming := False,
                  lastAccelRef := None,
                  lastIlluminanceRef := None,
                  lastMagnetometerReadingRef := None,
                  lastPressureRef := None\<rparr>
      in clearIfSet (armingTimeoutRef s2) s2)"

text \<open>The function given to \<open>setTimeout\<close> in \<open>toggleService\<close>.\<close>

definition armingTimeout :: "App \<Rightarrow> App" where
  "armingTimeout s =
     (if \<not> isServiceActiveRef s \<or> \<not> isArmingRef s then s
      else s\<lparr>isArming := False,
             lastAccelRef := None,
             lastIlluminanceRef := None,
             lastMagnetometerReadingRef := None,
             lastPressureRef := None,
             errorMessage := Some ''Servico ATIVO. Monitorando sensores. GPS pronto.''\<rparr>)"

definition toggleService :: "Platform \<Rightarrow> Clock \<Rightarrow> App \<Rightarrow> App" where
  "toggleService p clk s =
     (case getAudioContext p (s\<lparr>errorMessage := None, supportedSensors := []\<rparr>) of
        (audioCtx, s1) \<Rightarrow>
          if isServiceActiveRef s1 \<or> isArmingRef s1 then
            let s2 = (clearIfSet (armingTimeoutRef s1) s1)
                       \<lparr>isServiceActive := False,
                        isArming := False,
                        lastAccelRef := None,
                        lastIlluminanceRef := None,
                        lastMagnetometerReadingRef := None,
                        lastPressureRef := None\<rparr>;
                s3 = (if isAlarmPlayingRef s2 then stopAlarm s2
                      else s2\<lparr>errorMessage := Some ''Servico DESATIVADO.''\<rparr>)
            in addLogEntry clk ''Servico DESATIVADO pelo usuario.'' None s3
          else
            let s2 = s1\<lparr>isArming := True,
                        isServiceActive := True,
                        errorMessage :=
                          Some ''Servico armando em 3s... Sensores e GPS serao ativados.''\<rparr>;
                s3 = addLogEntry clk ''Servico armando em 3 segundos...'' None s2
            in (case setTimer ArmingDelayElapsed ARMING_DELAY_MS False s3 of
                  (t, s4) \<Rightarrow> s4\<lparr>armingTimeoutRef := Some t\<rparr>))"

section \<open>Effects\<close>

text \<open>
  The four effects that copy a state cell into its ref after a render
  (\<open>isAlarmPlayingRef\<close>, \<open>isServiceActiveRef\<close>, \<open>isArmingRef\<close>, \<open>supportedSensorsRef\<close>).
\<close>

definition syncRefs :: "App \<Rightarrow> App" where
  "syncRefs s =
     s\<lparr>isAlarmPlayingRef := isAlarmPlaying s,
       isServiceActiveRef := isServiceActive s,
       isArmingRef := isArming s,
       supportedSensorsRef := supportedSensors s\<rparr>"

text \<open>
  The body of the effect that logs the activation once arming has completed, and the
  function it hands to \<open>setTimeout\<close>.
\<close>

definition activationLogEffect :: "App \<Rightarrow> App" where
  "activationLogEffect s =
     (let wasArming = prevIsArmingRef s;
          s1 = s\<lparr>prevIsArmingRef := Some (isArming s)\<rparr>
      in if isServiceActive s1 then
           (if wasArming = Some True \<and> \<not> isArming s1 then
              (if \<not> hasLoggedActivationRef s1 then
                 (case setTimer ActivationLog 0 False s1 of
                    (t, s2) \<Rightarrow> s2\<lparr>activationCleanup := Some t\<rparr>)
               else s1)
            else s1)
         else s1\<lparr>hasLoggedActivationRef := False\<rparr>)"

definition activationLogTimeout :: "Clock \<Rightarrow> App \<Rightarrow> App" where
  "activationLogTimeout clk s =
     (let currentActiveSensorsList =
            (if length (supportedSensorsRef s) > 0 then joinJS (supportedSensorsRef s) '', ''
             else ''sensores padrao (como Acelerometro, se permitido e disponivel)'');
          logMessage = ''Servico ATIVO. Monitoramento iniciado com sensores: ''
                         @ currentActiveSensorsList @ ''.''
      in (addLogEntry clk logMessage None s)\<lparr>hasLoggedActivationRef := True\<rparr>)"

text \<open>
  One render with its effects. The refs hold the values of the previous render, so the
  dependencies \<open>isServiceActive\<close>, \<open>isArming\<close> of the activation-log effect have changed
  exactly when a cell differs from its ref; then the cleanup of the previous run is
  called before the body runs again.
\<close>

definition commit :: "App \<Rightarrow> App" where
  "commit s =
     (let changed = (isServiceActive s \<noteq> isServiceActiveRef s \<or> isArming s \<noteq> isArmingRef s);
          s1 = syncRefs s
      in if changed then
           activationLogEffect
             ((case activationCleanup s1 of None \<Rightarrow> s1 | Some t \<Rightarrow> clearTimer t s1)
                \<lparr>activationCleanup := None\<rparr>)
         else s1)"

text \<open>
  The test \<open>isServiceActive && !isArming\<close> that opens each of the six sensor effects:
  outside it no effect constructs a sensor or registers a listener.
\<close>

definition sensorsEnabled :: "App \<Rightarrow> bool" where
  "sensorsEnabled s = (isServiceActive s \<and> \<not> isArming s)"

text \<open>A pending timer fires: a timeout is removed first, an interval stays.\<close>

definition runCallback :: "Platform \<Rightarrow> Clock \<Rightarrow> Callback \<Rightarrow> App \<Rightarrow> App" where
  "runCallback p clk cb s =
     (case cb of
        ArmingDelayElapsed \<Rightarrow> armingTimeout s
      | SirenBurst \<Rightarrow> playSirenBurst p s
      | ActivationLog \<Rightarrow> activationLogTimeout clk s)"

definition fireTimer :: "Platform \<Rightarrow> Clock \<Rightarrow> nat \<Rightarrow> App \<Rightarrow> App" where
  "fireTimer p clk t s =
     (case find (\<lambda>tm. timerId tm = t) (timers s) of
        None \<Rightarrow> s
      | Some tm \<Rightarrow>
          runCallback p clk (callback tm) (if repeats tm then s else clearTimer t s))"

section \<open>Sensor reading handlers\<close>

text \<open>
  The \<open>devicemotion\<close> listener. The event carries \<open>accelerationIncludingGravity\<close>: \<open>null\<close>
  or an object whose axes are numbers or \<open>null\<close>.
\<close>

definition motionHandlerInternal ::
  "Platform \<Rightarrow> Clock \<Rightarrow> (real option \<times> real option \<times> real option) option \<Rightarrow> App \<Rightarrow> App" where
  "motionHandlerInternal p clk accelerationIncludingGravity s =
     (if isArmingRef s \<or> isAlarmPlayingRef s \<or> \<not> isServiceActiveRef s then s
      else
        (case accelerationIncludingGravity of
           Some (Some x, Some y, Some z) \<Rightarrow>
             (case lastAccelRef s of
                None \<Rightarrow> s\<lparr>lastAccelRef := Some (x, y, z)\<rparr>
              | Some (lastX, lastY, lastZ) \<Rightarrow>
                  let deltaX = \<bar>jsSub x lastX\<bar>;
                      deltaY = \<bar>jsSub y lastY\<bar>;
                      deltaZ = \<bar>jsSub z lastZ\<bar>;
                      totalDelta = mathSqrt (jsAdd (jsAdd (jsMul deltaX deltaX)
                                                          (jsMul deltaY deltaY))
                                                   (jsMul deltaZ deltaZ));
                      s1 = (if totalDelta > MOTION_THRESHOLD
                            then triggerAlarm p clk ''Movimento (Acelerometro) detectado!'' s
                            else s)
                  in s1\<lparr>lastAccelRef := Some (x, y, z)\<rparr>)
         | _ \<Rightarrow> s))"

text \<open>
  \<open>!v\<close> on a value of type \<open>number | null | undefined\<close>: true for \<open>null\<close>,
  \<open>undefined\<close> and 0.
\<close>

definition falsy :: "real option \<Rightarrow> bool" where
  "falsy v = (case v of None \<Rightarrow> True | Some r \<Rightarrow> r = 0)"

text \<open>The \<open>onreading\<close> handler of the \<open>Gyroscope\<close>, applied to the sensor's \<open>x\<close>, \<open>y\<close>, \<open>z\<close>.\<close>

definition gyroscopeOnreading ::
  "Platform \<Rightarrow> Clock \<Rightarrow> real option \<times> real option \<times> real option \<Rightarrow> App \<Rightarrow> App" where
  "gyroscopeOnreading p clk sensor s =
     (case sensor of
        (sx, sy, sz) \<Rightarrow>
          if isArmingRef s \<or> isAlarmPlayingRef s \<or> \<not> isServiceActiveRef s
             \<or> falsy sx \<or> falsy sy \<or> falsy sz then s
          else
            (case (sx, sy, sz) of
               (Some x, Some y, Some z) \<Rightarrow>
                 if \<bar>x\<bar> > GYROSCOPE_THRESHOLD \<or> \<bar>y\<bar> > GYROSCOPE_THRESHOLD
                    \<or> \<bar>z\<bar> > GYROSCOPE_THRESHOLD
                 then triggerAlarm p clk ''Rotacao (Giroscopio) detectada!'' s
                 else s
             | _ \<Rightarrow> s))"

text \<open>
  The \<open>onreading\<close> handler of the \<open>ProximitySensor\<close>, applied to the sensor's \<open>near\<close>
  (\<open>boolean | null | undefined\<close>), and the legacy \<open>deviceproximity\<close> listener, applied to
  the event's \<open>value\<close> and \<open>max\<close>.
\<close>

definition proximityOnreading :: "Platform \<Rightarrow> Clock \<Rightarrow> bool option \<Rightarrow> App \<Rightarrow> App" where
  "proximityOnreading p clk near s =
     (if isArmingRef s \<or> isAlarmPlayingRef s \<or> \<not> isServiceActiveRef s then s
      else if near = Some True then triggerAlarm p clk ''Proximidade detectada!'' s
      else s)"

definition proximityEventHandler :: "Platform \<Rightarrow> Clock \<Rightarrow> real \<Rightarrow> real \<Rightarrow> App \<Rightarrow> App" where
  "proximityEventHandler p clk val mx s =
     (if isArmingRef s \<or> isAlarmPlayingRef s \<or> \<not> isServiceActiveRef s then s
      else if val < PROXIMITY_FALLBACK_THRESHOLD_CM \<and> val < mx
           then triggerAlarm p clk ''Proximidade detectada (legado)!'' s
      else s)"

text \<open>The \<open>onactivate\<close> and \<open>onreading\<close> handlers of the \<open>AmbientLightSensor\<close>.\<close>

definition lightOnactivate :: "real option \<Rightarrow> App \<Rightarrow> App" where
  "lightOnactivate illuminance s =
     (case illuminance of None \<Rightarrow> s | Some v \<Rightarrow> s\<lparr>lastIlluminanceRef := Some v\<rparr>)"

definition lightOnreading :: "Platform \<Rightarrow> Clock \<Rightarrow> real option \<Rightarrow> App \<Rightarrow> App" where
  "lightOnreading p clk illuminance s =
     (if isArmingRef s \<or> isAlarmPlayingRef s \<or> \<not> isServiceActiveRef s then s
      else
        (case illuminance of
           None \<Rightarrow> s
         | Some currentIlluminance \<Rightarrow>
             let s1 = (case lastIlluminanceRef s of
                         None \<Rightarrow> s
                       | Some lastIlluminance \<Rightarrow>
                           if \<bar>jsSub currentIlluminance lastIlluminance\<bar> > LIGHT_CHANGE_THRESHOLD_LUX
                           then triggerAlarm p clk
                                  (''Mudanca de Luz ('' @ toFixed p 0 lastIlluminance @ ''lx -> ''
                                     @ toFixed p 0 currentIlluminance @ ''lx)!'') s
                           else s)
             in s1\<lparr>lastIlluminanceRef := Some currentIlluminance\<rparr>))"

text \<open>The \<open>onreading\<close> handler of the \<open>Magnetometer\<close>.\<close>

definition magnetometerOnreading ::
  "Platform \<Rightarrow> Clock \<Rightarrow> real option \<times> real option \<times> real option \<Rightarrow> App \<Rightarrow> App" where
  "magnetometerOnreading p clk sensor s =
     (if isArmingRef s \<or> isAlarmPlayingRef s \<or> \<not> isServiceActiveRef s then s
      else
        (case sensor of
           (Some x, Some y, Some z) \<Rightarrow>
             (case lastMagnetometerReadingRef s of
                None \<Rightarrow> s\<lparr>lastMagnetometerReadingRef := Some (x, y, z)\<rparr>
              | Some (lastX, lastY, lastZ) \<Rightarrow>
                  let deltaX = \<bar>jsSub x lastX\<bar>;
                      deltaY = \<bar>jsSub y lastY\<bar>;
                      deltaZ = \<bar>jsSub z lastZ\<bar>;
                      s1 = (if deltaX > MAGNETOMETER_CHANGE_THRESHOLD_UT
                               \<or> deltaY > MAGNETOMETER_CHANGE_THRESHOLD_UT
                               \<or> deltaZ > MAGNETOMETER_CHANGE_THRESHOLD_UT
                            then triggerAlarm p clk ''Alteracao no campo magnetico detectada!'' s
                            else s)
                  in s1\<lparr>lastMagnetometerReadingRef := Some (x, y, z)\<rparr>)
         | _ \<Rightarrow> s))"

text \<open>The \<open>onactivate\<close> and \<open>onreading\<close> handlers of the \<open>Barometer\<close>.\<close>

definition barometerOnactivate :: "real option \<Rightarrow> App \<Rightarrow> App" where
  "barometerOnactivate pressure s =
     (case pressure of None \<Rightarrow> s | Some v \<Rightarrow> s\<lparr>lastPressureRef := Some v\<rparr>)"

definition barometerOnreading :: "Platform \<Rightarrow> Clock \<Rightarrow> real option \<Rightarrow> App \<Rightarrow> App" where
  "barometerOnreading p clk pressure s =
     (if isArmingRef s \<or> isAlarmPlayingRef s \<or> \<not> isServiceActiveRef s then s
      else
        (case pressure of
           None \<Rightarrow> s
         | Some currentPressure \<Rightarrow>
             let s1 = (case lastPressureRef s of
                         None \<Rightarrow> s
                       | Some lastPressure \<Rightarrow>
                           if \<bar>jsSub currentPressure lastPressure\<bar> > BAROMETER_CHANGE_THRESHOLD_PA
                           then triggerAlarm p clk
                                  (''Mudanca de pressao atmosferica detectada (''
                                     @ toFixed p 1 lastPressure @ ''Pa -> ''
                                     @ toFixed p 1 currentPressure @ ''Pa)!'') s
                           else s)
             in s1\<lparr>lastPressureRef := Some currentPressure\<rparr>))"

section \<open>The gyroscope detector as the specification words it\<close>

text \<open>
  Following the specification's table, not the source: the delta of the gyroscope is
  the largest per-axis absolute difference between the previous and the current reading,
  and a delta above 0.7 rad/s triggers.
\<close>

definition gyroscopeDeltaSpec :: "vec3 \<Rightarrow> vec3 \<Rightarrow> real" where
  "gyroscopeDeltaSpec prev cur =
     (case (prev, cur) of
        ((px, py, pz), (cx, cy, cz)) \<Rightarrow> max (max \<bar>cx - px\<bar> \<bar>cy - py\<bar>) \<bar>cz - pz\<bar>)"

definition gyroscopeTriggersSpec :: "vec3 \<Rightarrow> vec3 \<Rightarrow> bool" where
  "gyroscopeTriggersSpec prev cur = (gyroscopeDeltaSpec prev cur > 0.7)"

section \<open>The accelerometer detector as the specification words it\<close>

text \<open>
  Following the specification's table, not the source: the delta of the accelerometer is
  the Euclidean norm of the per-axis absolute differences between baseline and reading,
  in exact arithmetic, and a delta strictly above 0.6 triggers.
\<close>

definition accelerometerDeltaSpec :: "vec3 \<Rightarrow> vec3 \<Rightarrow> real" where
  "accelerometerDeltaSpec prev cur =
     (case (prev, cur) of
        ((px, py, pz), (cx, cy, cz)) \<Rightarrow>
          sqrt (\<bar>cx - px\<bar> * \<bar>cx - px\<bar> + \<bar>cy - py\<bar> * \<bar>cy - py\<bar> + \<bar>cz - pz\<bar> * \<bar>cz - pz\<bar>))"

definition accelerometerTriggersSpec :: "vec3 \<Rightarrow> vec3 \<Rightarrow> bool" where
  "accelerometerTriggersSpec prev cur = (accelerometerDeltaSpec prev cur > 0.6)"

section \<open>Example runs\<close>

text \<open>
  A browser with running audio and without geolocation, a clock, the component after
  its first render, and the states reached by switching the service on, letting the
  arming delay elapse (timer 1, then the render and the zero-delay timer 2 of the
  activation log entry), and a first trigger followed by its render.
\<close>

definition examplePlatform :: Platform where
  "examplePlatform = \<lparr>audioCtor = Some Running, hasGeolocation = False, toFixed = (\<lambda>d x. [])\<rparr>"

definition clockAt :: "nat \<Rightarrow> Clock" where
  "clockAt n = \<lparr>dateNow = n, toLocaleString = ''01/01/2025, 12:00:00''\<rparr>"

definition initialApp :: App where
  "initialApp =
     \<lparr>isServiceActive = False, isArming = False, logs = [], isAlarmPlaying = False,
      errorMessage = None, supportedSensors = [],
      lastAccelRef = None, armingTimeoutRef = None, audioContextRef = None,
      oscillatorRef = None, gainNodeRef = None, alarmIntervalRef = None,
      lastIlluminanceRef = None, lastMagnetometerReadingRef = None, lastPressureRef = None,
      isAlarmPlayingRef = False, isServiceActiveRef = False, isArmingRef = False,
      supportedSensorsRef = [], prevIsArmingRef = Some False, hasLoggedActivationRef = False,
      timers = [], nextTimerId = 1, burstsStarted = 0, geoRequests = [],
      activationCleanup = None\<rparr>"

definition armingApp :: App where
  "armingApp = commit (toggleService examplePlatform (clockAt 1000) initialApp)"

definition activeApp :: App where
  "activeApp =
     fireTimer examplePlatform (clockAt 4000) 2
       (commit (fireTimer examplePlatform (clockAt 4000) 1 armingApp))"

definition alarmingApp :: App where
  "alarmingApp = commit (triggerAlarm examplePlatform (clockAt 5000) ''Proximidade detectada!'' activeApp)"

text \<open>
  The state between a first detection and the render that follows it: the proximity
  sensor has reported \<open>near\<close> to the active service.
\<close>

definition triggeredApp :: App where
  "triggeredApp = proximityOnreading examplePlatform (clockAt 5000) (Some True) activeApp"

definition fullLogApp :: App where
  "fullLogApp =
     initialApp\<lparr>logs := map (\<lambda>n. newLog (clockAt n) ''Acelerometro ativado.'' None)
                             (rev [0..<50])\<rparr>"

section \<open>Auxiliary facts\<close>

subsection \<open>Strings\<close>

lemma splitFrom_nonempty: "splitFrom sep cur s \<noteq> []"
  by (induction sep cur s rule: splitFrom.induct) auto

lemma toString_1000: "toString 1000 = ''1000''"
  by (simp add: toString.simps digit_def)

lemma toString_4000: "toString 4000 = ''4000''"
  by (simp add: toString.simps digit_def)

lemma toString_5000: "toString 5000 = ''5000''"
  by (simp add: toString.simps digit_def)

lemma merge_alert:
  "mergeErrorMessage (Some ''ALERTA! Proximidade detectada!'') ''Geolocalizacao nao suportada''
     = ''ALERTA! Proximidade detectada!'' @ [CHR 0x0A] @ ''Geolocalizacao nao suportada''"
  by code_simp

subsection \<open>Rounding to the nearest double\<close>

lemma pow2_powr: "pow2 e = 2 powr (of_int e)"
proof (cases "0 \<le> e")
  case True
  then have "2 powr (of_int e) = (2::real) ^ nat e"
    by (metis of_int_of_nat_eq of_nat_nat powr_realpow zero_less_numeral of_int_0_le_iff)
  then show ?thesis using True by (simp add: pow2_def)
next
  case False
  then have "2 powr (of_int e) = 1 / (2::real) powr (of_int (- e))"
    by (simp add: powr_minus_divide)
  also have "(2::real) powr (of_int (- e)) = 2 ^ nat (- e)"
    using False
    by (metis (no_types) linorder_le_cases neg_0_le_iff_le of_int_of_nat_eq of_nat_nat powr_realpow zero_less_numeral)
  finally show ?thesis using False by (simp add: pow2_def)
qed

lemma pow2_pos: "0 < pow2 e"
  by (simp add: pow2_powr)

lemma roundTiesToEven_unique:
  assumes "\<bar>r - of_int m\<bar> < 1 / 2"
  shows "roundTiesToEven r = m"
proof (cases "of_int m \<le> r")
  case True
  then have "\<lfloor>r\<rfloor> = m"
    using assms by (intro floor_unique) auto
  then show ?thesis
    using assms True by (simp add: roundTiesToEven_def Let_def)
next
  case False
  then have f: "\<lfloor>r\<rfloor> = m - 1"
    using assms by (intro floor_unique) auto
  have "r - of_int (m - 1) > 1 / 2"
    using assms False by auto
  then show ?thesis
    using f by (simp add: roundTiesToEven_def Let_def)
qed

lemma floor_log2_eqI:
  assumes "pow2 e \<le> x" and "x < pow2 (e + 1)"
  shows "\<lfloor>log 2 x\<rfloor> = e"
proof -
  have pos: "0 < x"
    using assms(1) pow2_pos [of e] by linarith
  have "of_int e \<le> log 2 x"
    using assms(1) pos by (simp add: le_log_iff pow2_powr)
  moreover have "log 2 x < of_int e + 1"
    using assms(2) pos by (simp add: log_less_iff pow2_powr)
  ultimately show ?thesis
    by (intro floor_unique) auto
qed

lemma fl_eqI:
  assumes "pow2 e \<le> \<bar>x\<bar>" and "\<bar>x\<bar> < pow2 (e + 1)" and "- 1022 \<le> e"
    and "\<bar>x / pow2 (e - 52) - of_int m\<bar> < 1 / 2"
  shows "fl x = of_int m * pow2 (e - 52)"
proof -
  have "x \<noteq> 0"
    using assms(1) pow2_pos [of e] by auto
  moreover have "quantum x = e - 52"
    using floor_log2_eqI [OF assms(1,2)] assms(3) by (simp add: quantum_def)
  ultimately show ?thesis
    using roundTiesToEven_unique [OF assms(4)] by (simp add: fl_def)
qed

lemma mathSqrt_eqI:
  assumes "0 \<le> v" and "pow2 e * pow2 e \<le> v" and "v < pow2 (e + 1) * pow2 (e + 1)"
    and "- 1022 \<le> e" and "0 < m"
    and "((of_int m - 1 / 2) * pow2 (e - 52)) * ((of_int m - 1 / 2) * pow2 (e - 52)) < v"
    and "v < ((of_int m + 1 / 2) * pow2 (e - 52)) * ((of_int m + 1 / 2) * pow2 (e - 52))"
  shows "mathSqrt v = of_int m * pow2 (e - 52)"
proof -
  let ?q = "pow2 (e - 52)"
  have q: "0 < ?q" by (rule pow2_pos)
  have lo: "pow2 e \<le> sqrt v"
    using assms(2) pow2_pos [of e] by (intro real_le_rsqrt) (simp add: power2_eq_square)
  have hi: "sqrt v < pow2 (e + 1)"
    using assms(1,3) pow2_pos [of "e + 1"] by (intro real_less_lsqrt) (simp_all add: power2_eq_square)
  have m: "0 \<le> (of_int m - 1 / 2) * ?q"
    using assms(5) q by (intro mult_nonneg_nonneg) auto
  have a: "(of_int m - 1 / 2) * ?q < sqrt v"
    using assms(6) m by (intro real_less_rsqrt) (simp add: power2_eq_square)
  have b: "sqrt v < (of_int m + 1 / 2) * ?q"
    using assms(1,5,7) q by (intro real_less_lsqrt) (simp_all add: power2_eq_square)
  have "of_int m - 1 / 2 < sqrt v / ?q"
    using a q by (simp add: pos_less_divide_eq)
  moreover have "sqrt v / ?q < of_int m + 1 / 2"
    using b q by (simp add: pos_divide_less_eq)
  ultimately have "\<bar>sqrt v / ?q - of_int m\<bar> < 1 / 2"
    by linarith
  moreover have "\<bar>sqrt v\<bar> = sqrt v"
    using assms(1) by simp
  ultimately show ?thesis
    unfolding mathSqrt_def using lo hi assms(4) by (intro fl_eqI) simp_all
qed

lemma fl_zero: "fl 0 = 0"
  by (simp add: fl_def)

text \<open>
  The roundings met in the examples below: the values of the accelerometer scenario
  (baseline 9.8, reading 11.0), the double nearest to 0.6, the steps of a reading whose
  computed norm is exactly that double, and two integers.
\<close>

lemma fl_9_8:
  "fl (49 / 5)
     = 2758454771764429 / 281474976710656"
  using fl_eqI
          [of 3 "49 / 5" 5516909543528858]
  by (simp add: pow2_def)

lemma fl_example_delta:
  "fl (337769972052787 / 281474976710656)
     = 337769972052787 / 281474976710656"
  using fl_eqI
          [of 0 "337769972052787 / 281474976710656" 5404319552844592]
  by (simp add: pow2_def)

lemma fl_example_square:
  "fl (114088554020540511026714467369 / 79228162514264337593543950336)
     = 6485183463413507 / 4503599627370496"
  using fl_eqI
          [of 0 "114088554020540511026714467369 / 79228162514264337593543950336" 6485183463413507]
  by (simp add: pow2_def)

lemma fl_example_sum:
  "fl (6485183463413507 / 4503599627370496)
     = 6485183463413507 / 4503599627370496"
  using fl_eqI
          [of 0 "6485183463413507 / 4503599627370496" 6485183463413507]
  by (simp add: pow2_def)

lemma mathSqrt_example:
  "mathSqrt (6485183463413507 / 4503599627370496)
     = 337769972052787 / 281474976710656"
  using mathSqrt_eqI
          [of "6485183463413507 / 4503599627370496" 0 5404319552844592]
  by (simp add: pow2_def)

lemma fl_0_6:
  "fl (3 / 5)
     = 5404319552844595 / 9007199254740992"
  using fl_eqI
          [of "- 1" "3 / 5" 5404319552844595]
  by (simp add: pow2_def)

lemma fl_quarter:
  "fl (1 / 4)
     = 1 / 4"
  using fl_eqI
          [of "- 2" "1 / 4" 4503599627370496]
  by (simp add: pow2_def)

lemma fl_edge_y:
  "fl (2456423590728271 / 4503599627370496)
     = 2456423590728271 / 4503599627370496"
  using fl_eqI
          [of "- 1" "2456423590728271 / 4503599627370496" 4912847181456542]
  by (simp add: pow2_def)

lemma fl_sixteenth:
  "fl (1 / 16)
     = 1 / 16"
  using fl_eqI
          [of "- 4" "1 / 16" 4503599627370496]
  by (simp add: pow2_def)

lemma fl_edge_y_square:
  "fl (6034016857086372229156158649441 / 20282409603651670423947251286016)
     = 2679641778285445 / 9007199254740992"
  using fl_eqI
          [of "- 2" "6034016857086372229156158649441 / 20282409603651670423947251286016" 5359283556570890]
  by (simp add: pow2_def)

lemma fl_edge_sum:
  "fl (3242591731706757 / 9007199254740992)
     = 3242591731706757 / 9007199254740992"
  using fl_eqI
          [of "- 2" "3242591731706757 / 9007199254740992" 6485183463413514]
  by (simp add: pow2_def)

lemma mathSqrt_edge:
  "mathSqrt (3242591731706757 / 9007199254740992)
     = 5404319552844595 / 9007199254740992"
  using mathSqrt_eqI
          [of "3242591731706757 / 9007199254740992" "- 1" 5404319552844595]
  by (simp add: pow2_def)

lemma fl_100:
  "fl 100
     = 100"
  using fl_eqI
          [of 6 100 7036874417766400]
  by (simp add: pow2_def)

lemma fl_75:
  "fl 75
     = 75"
  using fl_eqI
          [of 6 75 5277655813324800]
  by (simp add: pow2_def)

text \<open>
  The accelerometer norm as the handler computes it, step by step, for the scenario
  (baseline 9.8, reading 11.0) and for a reading whose computed norm is the double 0.6
  although its exact norm is above 0.6.
\<close>

lemma decimal_9_8: "(9.8::real) = 49 / 5"
  by simp

lemma decimal_0_6: "(0.6::real) = 3 / 5"
  by simp

lemma threshold_value: "fl 0.6 = 5404319552844595 / 9007199254740992"
  by (simp only: decimal_0_6 fl_0_6)

lemma zero_ops: "jsSub 0 0 = 0" "jsMul 0 0 = 0" "jsAdd 0 0 = 0"
  by (simp_all add: jsSub_def jsMul_def jsAdd_def fl_zero)

lemma example_norm:
  "mathSqrt (jsAdd (jsAdd (jsMul \<bar>jsSub 0 0\<bar> \<bar>jsSub 0 0\<bar>) (jsMul \<bar>jsSub 0 0\<bar> \<bar>jsSub 0 0\<bar>))
                   (jsMul \<bar>jsSub 11 (fl 9.8)\<bar> \<bar>jsSub 11 (fl 9.8)\<bar>))
     = 337769972052787 / 281474976710656"
proof -
  have sub: "(11::real) - 2758454771764429 / 281474976710656
               = 337769972052787 / 281474976710656"
    by simp
  have d: "jsSub 11 (fl 9.8) = 337769972052787 / 281474976710656"
    by (simp only: jsSub_def decimal_9_8 fl_9_8 sub fl_example_delta)
  have sq: "(337769972052787 / 281474976710656) * (337769972052787 / 281474976710656)
              = (114088554020540511026714467369 / 79228162514264337593543950336 :: real)"
    by simp
  have a: "\<bar>337769972052787 / 281474976710656\<bar> = (337769972052787 / 281474976710656 :: real)"
    by simp
  have q: "jsMul (337769972052787 / 281474976710656) (337769972052787 / 281474976710656)
             = 6485183463413507 / 4503599627370496"
    by (simp only: jsMul_def sq fl_example_square)
  have s: "jsAdd 0 (6485183463413507 / 4503599627370496) = 6485183463413507 / 4503599627370496"
    by (simp only: jsAdd_def add_0 fl_example_sum)
  show ?thesis
    by (simp only: zero_ops abs_zero d a q s mathSqrt_example)
qed

lemma edge_norm:
  "mathSqrt (jsAdd (jsAdd (jsMul \<bar>jsSub (1 / 4) 0\<bar> \<bar>jsSub (1 / 4) 0\<bar>)
                          (jsMul \<bar>jsSub (2456423590728271 / 4503599627370496) 0\<bar>
                                 \<bar>jsSub (2456423590728271 / 4503599627370496) 0\<bar>))
                   (jsMul \<bar>jsSub 0 0\<bar> \<bar>jsSub 0 0\<bar>))
     = fl 0.6"
proof -
  have x: "jsSub (1 / 4) 0 = 1 / 4"
    by (simp only: jsSub_def diff_zero fl_quarter)
  have y: "jsSub (2456423590728271 / 4503599627370496) 0 = 2456423590728271 / 4503599627370496"
    by (simp only: jsSub_def diff_zero fl_edge_y)
  have ax: "\<bar>1 / 4\<bar> = (1 / 4 :: real)"
    "\<bar>2456423590728271 / 4503599627370496\<bar> = (2456423590728271 / 4503599627370496 :: real)"
    by simp_all
  have px: "(1 / 4) * (1 / 4) = (1 / 16 :: real)"
    by simp
  have py: "(2456423590728271 / 4503599627370496) * (2456423590728271 / 4503599627370496)
              = (6034016857086372229156158649441 / 20282409603651670423947251286016 :: real)"
    by simp
  have xx: "jsMul (1 / 4) (1 / 4) = 1 / 16"
    by (simp only: jsMul_def px fl_sixteenth)
  have yy: "jsMul (2456423590728271 / 4503599627370496) (2456423590728271 / 4503599627370496)
              = 2679641778285445 / 9007199254740992"
    by (simp only: jsMul_def py fl_edge_y_square)
  have sum: "1 / 16 + 2679641778285445 / 9007199254740992
               = (3242591731706757 / 9007199254740992 :: real)"
    by simp
  have s: "jsAdd (1 / 16) (2679641778285445 / 9007199254740992)
             = 3242591731706757 / 9007199254740992"
    by (simp only: jsAdd_def sum fl_edge_sum)
  have s': "jsAdd (3242591731706757 / 9007199254740992) 0 = 3242591731706757 / 9007199254740992"
    by (simp only: jsAdd_def add_0_right fl_edge_sum)
  show ?thesis
    by (simp only: zero_ops abs_zero x y ax xx yy s s' mathSqrt_edge threshold_value)
qed

lemma edge_exact:
  "sqrt (\<bar>1 / 4 - 0\<bar> * \<bar>1 / 4 - 0\<bar>
         + \<bar>2456423590728271 / 4503599627370496 - 0\<bar> * \<bar>2456423590728271 / 4503599627370496 - 0\<bar>
         + \<bar>0 - 0\<bar> * \<bar>0 - 0\<bar>) > (0.6 :: real)"
  by (rule real_less_rsqrt) (simp add: power2_eq_square)

subsection \<open>The example run, state by state\<close>

lemma armingApp_eq:
  "armingApp =
     \<lparr>isServiceActive = True, isArming = True,
      logs = [\<lparr>id' = ''1000'', timestamp = ''01/01/2025, 12:00:00'',
               message = ''Servico armando em 3 segundos...'', coordinates = None\<rparr>],
      isAlarmPlaying = False,
      errorMessage = Some ''Servico armando em 3s... Sensores e GPS serao ativados.'',
      supportedSensors = [],
      lastAccelRef = None, armingTimeoutRef = Some 1, audioContextRef = Some Running,
      oscillatorRef = None, gainNodeRef = None, alarmIntervalRef = None,
      lastIlluminanceRef = None, lastMagnetometerReadingRef = None, lastPressureRef = None,
      isAlarmPlayingRef = False, isServiceActiveRef = True, isArmingRef = True,
      supportedSensorsRef = [], prevIsArmingRef = Some True, hasLoggedActivationRef = False,
      timers = [Timer 1 ArmingDelayElapsed 3000 False], nextTimerId = 2, burstsStarted = 0,
      geoRequests = [], activationCleanup = None\<rparr>"
  by (simp add: armingApp_def initialApp_def toggleService_def getAudioContext_def
      examplePlatform_def clockAt_def addLogEntry_def newLog_def setTimer_def commit_def
      syncRefs_def activationLogEffect_def ARMING_DELAY_MS_def toString_1000 Let_def)

lemma activeApp_eq:
  "activeApp =
     \<lparr>isServiceActive = True, isArming = False,
      logs = [\<lparr>id' = ''4000'', timestamp = ''01/01/2025, 12:00:00'',
               message = ''Servico ATIVO. Monitoramento iniciado com sensores: ''
                 @ ''sensores padrao (como Acelerometro, se permitido e disponivel).'',
               coordinates = None\<rparr>,
              \<lparr>id' = ''1000'', timestamp = ''01/01/2025, 12:00:00'',
               message = ''Servico armando em 3 segundos...'', coordinates = None\<rparr>],
      isAlarmPlaying = False,
      errorMessage = Some ''Servico ATIVO. Monitorando sensores. GPS pronto.'',
      supportedSensors = [],
      lastAccelRef = None, armingTimeoutRef = Some 1, audioContextRef = Some Running,
      oscillatorRef = None, gainNodeRef = None, alarmIntervalRef = None,
      lastIlluminanceRef = None, lastMagnetometerReadingRef = None, lastPressureRef = None,
      isAlarmPlayingRef = False, isServiceActiveRef = True, isArmingRef = False,
      supportedSensorsRef = [], prevIsArmingRef = Some False, hasLoggedActivationRef = True,
      timers = [], nextTimerId = 3, burstsStarted = 0,
      geoRequests = [], activationCleanup = Some 2\<rparr>"
  unfolding activeApp_def armingApp_eq
  by (simp add: fireTimer_def runCallback_def armingTimeout_def commit_def syncRefs_def
      activationLogEffect_def activationLogTimeout_def setTimer_def clearTimer_def
      addLogEntry_def newLog_def clockAt_def toString_4000 Let_def)

lemma alarmingApp_eq:
  "alarmingApp =
     \<lparr>isServiceActive = True, isArming = False,
      logs = [\<lparr>id' = ''5000'', timestamp = ''01/01/2025, 12:00:00'',
               message = ''Proximidade detectada! (Geolocalizacao nao suportada)'',
               coordinates = None\<rparr>,
              \<lparr>id' = ''4000'', timestamp = ''01/01/2025, 12:00:00'',
               message = ''Servico ATIVO. Monitoramento iniciado com sensores: ''
                 @ ''sensores padrao (como Acelerometro, se permitido e disponivel).'',
               coordinates = None\<rparr>,
              \<lparr>id' = ''1000'', timestamp = ''01/01/2025, 12:00:00'',
               message = ''Servico armando em 3 segundos...'', coordinates = None\<rparr>],
      isAlarmPlaying = True,
      errorMessage = Some (''ALERTA! Proximidade detectada!'' @ [CHR 0x0A]
                             @ ''Geolocalizacao nao suportada''),
      supportedSensors = [],
      lastAccelRef = None, armingTimeoutRef = Some 1, audioContextRef = Some Running,
      oscillatorRef = Some 0, gainNodeRef = Some 0, alarmIntervalRef = Some 3,
      lastIlluminanceRef = None, lastMagnetometerReadingRef = None, lastPressureRef = None,
      isAlarmPlayingRef = True, isServiceActiveRef = True, isArmingRef = False,
      supportedSensorsRef = [], prevIsArmingRef = Some False, hasLoggedActivationRef = True,
      timers = [Timer 3 SirenBurst 1000 True], nextTimerId = 4,
      burstsStarted = 1, geoRequests = [], activationCleanup = Some 2\<rparr>"
  unfolding alarmingApp_def activeApp_eq
  by (simp add: triggerAlarm_def startAlarmSound_def getAudioContext_def playSirenBurst_def
      setTimer_def clearIfSet_def appendErrorMessage_def addLogEntry_def newLog_def
      examplePlatform_def clockAt_def commit_def syncRefs_def ALARM_SOUND_INTERVAL_MS_def
      toString_5000 merge_alert Let_def)

lemma triggeredApp_eq:
  "triggeredApp =
     \<lparr>isServiceActive = True, isArming = False,
      logs = [\<lparr>id' = ''5000'', timestamp = ''01/01/2025, 12:00:00'',
               message = ''Proximidade detectada! (Geolocalizacao nao suportada)'',
               coordinates = None\<rparr>,
              \<lparr>id' = ''4000'', timestamp = ''01/01/2025, 12:00:00'',
               message = ''Servico ATIVO. Monitoramento iniciado com sensores: ''
                 @ ''sensores padrao (como Acelerometro, se permitido e disponivel).'',
               coordinates = None\<rparr>,
              \<lparr>id' = ''1000'', timestamp = ''01/01/2025, 12:00:00'',
               message = ''Servico armando em 3 segundos...'', coordinates = None\<rparr>],
      isAlarmPlaying = True,
      errorMessage = Some (''ALERTA! Proximidade detectada!'' @ [CHR 0x0A]
                             @ ''Geolocalizacao nao suportada''),
      supportedSensors = [],
      lastAccelRef = None, armingTimeoutRef = Some 1, audioContextRef = Some Running,
      oscillatorRef = Some 0, gainNodeRef = Some 0, alarmIntervalRef = Some 3,
      lastIlluminanceRef = None, lastMagnetometerReadingRef = None, lastPressureRef = None,
      isAlarmPlayingRef = False, isServiceActiveRef = True, isArmingRef = False,
      supportedSensorsRef = [], prevIsArmingRef = Some False, hasLoggedActivationRef = True,
      timers = [Timer 3 SirenBurst 1000 True], nextTimerId = 4,
      burstsStarted = 1, geoRequests = [], activationCleanup = Some 2\<rparr>"
  unfolding triggeredApp_def activeApp_eq
  by (simp add: proximityOnreading_def triggerAlarm_def startAlarmSound_def getAudioContext_def
      playSirenBurst_def setTimer_def clearIfSet_def appendErrorMessage_def addLogEntry_def
      newLog_def examplePlatform_def clockAt_def ALARM_SOUND_INTERVAL_MS_def
      toString_5000 merge_alert Let_def)

subsection \<open>What each operation leaves untouched\<close>

lemma isAlarmPlaying_triggerAlarm:
  "isAlarmPlaying (triggerAlarm p clk src s) = (isAlarmPlaying s \<or> \<not> isAlarmPlayingRef s)"
  by (simp add: triggerAlarm_def startAlarmSound_def getAudioContext_def playSirenBurst_def
      setTimer_def clearIfSet_def clearTimer_def appendErrorMessage_def addLogEntry_def Let_def
      split: option.splits prod.splits)

text \<open>With a baseline, the accelerometer handler starts the alarm on the computed norm.\<close>

lemma motionHandlerInternal_alarm:
  assumes "isServiceActiveRef s" and "\<not> isArmingRef s" and "\<not> isAlarmPlayingRef s"
    and "\<not> isAlarmPlaying s" and "lastAccelRef s = Some (lx, ly, lz)"
  shows "isAlarmPlaying (motionHandlerInternal p clk (Some (Some x, Some y, Some z)) s)
          \<longleftrightarrow> mathSqrt (jsAdd (jsAdd (jsMul \<bar>jsSub x lx\<bar> \<bar>jsSub x lx\<bar>)
                                    (jsMul \<bar>jsSub y ly\<bar> \<bar>jsSub y ly\<bar>))
                             (jsMul \<bar>jsSub z lz\<bar> \<bar>jsSub z lz\<bar>)) > fl 0.6"
  using assms
  by (simp add: motionHandlerInternal_def MOTION_THRESHOLD_def Let_def
      isAlarmPlaying_triggerAlarm)

lemma logs_stopAlarm: "logs (stopAlarm s) = logs s"
  by (simp add: stopAlarm_def stopAlarmSound_def clearIfSet_def clearTimer_def Let_def
      split: option.splits)

lemma cells_stopAlarm:
  "\<not> isServiceActive (stopAlarm s)"
  "\<not> isArming (stopAlarm s)"
  by (simp_all add: stopAlarm_def stopAlarmSound_def clearIfSet_def clearTimer_def Let_def
      split: option.splits)

lemma refs_stopAlarm:
  "isServiceActiveRef (stopAlarm s) = isServiceActiveRef s"
  "isArmingRef (stopAlarm s) = isArmingRef s"
  by (simp_all add: stopAlarm_def stopAlarmSound_def clearIfSet_def clearTimer_def Let_def
      split: option.splits)

lemma timers_stopAlarmSound: "set (timers (stopAlarmSound s)) \<subseteq> set (timers s)"
  by (auto simp: stopAlarmSound_def clearTimer_def Let_def split: option.splits)

lemma timers_clearIfSet: "set (timers (clearIfSet r s)) \<subseteq> set (timers s)"
  by (auto simp: clearIfSet_def clearTimer_def split: option.splits)

lemma timers_stopAlarm: "set (timers (stopAlarm s)) \<subseteq> set (timers s)"
proof -
  have "set (timers (stopAlarm s))
          \<subseteq> set (timers (stopAlarmSound (s\<lparr>isAlarmPlaying := False\<rparr>)))"
    unfolding stopAlarm_def Let_def
    by (rule order_trans [OF timers_clearIfSet]) simp
  also have "\<dots> \<subseteq> set (timers s)"
    using timers_stopAlarmSound [of "s\<lparr>isAlarmPlaying := False\<rparr>"] by simp
  finally show ?thesis .
qed

lemma getAudioContext_frame:
  "timers (snd (getAudioContext p s)) = timers s"
  "armingTimeoutRef (snd (getAudioContext p s)) = armingTimeoutRef s"
  "isArmingRef (snd (getAudioContext p s)) = isArmingRef s"
  "isServiceActiveRef (snd (getAudioContext p s)) = isServiceActiveRef s"
  "isAlarmPlayingRef (snd (getAudioContext p s)) = isAlarmPlayingRef s"
  "logs (snd (getAudioContext p s)) = logs s"
  by (simp_all add: getAudioContext_def appendErrorMessage_def split: option.splits)

text \<open>What the deactivating branch of \<open>toggleService\<close> leaves behind.\<close>

lemma toggleService_off:
  assumes "isServiceActiveRef s \<or> isArmingRef s"
  shows "\<not> isServiceActive (toggleService p clk s)"
    and "\<not> isArming (toggleService p clk s)"
    and "logs (toggleService p clk s)
           = newLog clk ''Servico DESATIVADO pelo usuario.'' None # take 49 (logs s)"
    and "isServiceActiveRef (toggleService p clk s) = isServiceActiveRef s"
    and "isArmingRef (toggleService p clk s) = isArmingRef s"
    and "set (timers (toggleService p clk s))
           \<subseteq> set (timers (clearIfSet (armingTimeoutRef s) s))"
proof -
  let ?s1 = "snd (getAudioContext p (s\<lparr>errorMessage := None, supportedSensors := []\<rparr>))"
  let ?s2 = "(clearIfSet (armingTimeoutRef ?s1) ?s1)
               \<lparr>isServiceActive := False, isArming := False, lastAccelRef := None,
                lastIlluminanceRef := None, lastMagnetometerReadingRef := None,
                lastPressureRef := None\<rparr>"
  let ?s3 = "if isAlarmPlayingRef ?s2 then stopAlarm ?s2
             else ?s2\<lparr>errorMessage := Some ''Servico DESATIVADO.''\<rparr>"
  have gate: "isServiceActiveRef ?s1 \<or> isArmingRef ?s1"
    using assms by (simp add: getAudioContext_frame)
  have shape: "toggleService p clk s = addLogEntry clk ''Servico DESATIVADO pelo usuario.'' None ?s3"
    using gate unfolding toggleService_def Let_def case_prod_beta by (simp only: if_True)
  have s2: "\<not> isServiceActive ?s2" "\<not> isArming ?s2" "logs ?s2 = logs s"
    "isServiceActiveRef ?s2 = isServiceActiveRef s" "isArmingRef ?s2 = isArmingRef s"
    by (simp_all add: clearIfSet_def clearTimer_def getAudioContext_frame split: option.splits)
  have t2: "timers ?s2 = timers (clearIfSet (armingTimeoutRef s) s)"
    by (simp add: clearIfSet_def clearTimer_def getAudioContext_frame split: option.splits)
  show "\<not> isServiceActive (toggleService p clk s)"
    unfolding shape using s2(1) by (simp add: addLogEntry_def cells_stopAlarm)
  show "\<not> isArming (toggleService p clk s)"
    unfolding shape using s2(2) by (simp add: addLogEntry_def cells_stopAlarm)
  show "logs (toggleService p clk s)
           = newLog clk ''Servico DESATIVADO pelo usuario.'' None # take 49 (logs s)"
    unfolding shape using s2(3) by (simp add: addLogEntry_def logs_stopAlarm)
  show "isServiceActiveRef (toggleService p clk s) = isServiceActiveRef s"
    unfolding shape using s2(4) by (simp add: addLogEntry_def refs_stopAlarm)
  show "isArmingRef (toggleService p clk s) = isArmingRef s"
    unfolding shape using s2(5) by (simp add: addLogEntry_def refs_stopAlarm)
  show "set (timers (toggleService p clk s))
           \<subseteq> set (timers (clearIfSet (armingTimeoutRef s) s))"
    unfolding shape using t2 timers_stopAlarm [of ?s2] by (auto simp: addLogEntry_def)
qed

lemma commit_cells:
  "isServiceActive (commit s) = isServiceActive s"
  "isArming (commit s) = isArming s"
  "isServiceActiveRef (commit s) = isServiceActive s"
  "isArmingRef (commit s) = isArming s"
  "isAlarmPlayingRef (commit s) = isAlarmPlaying s"
  "logs (commit s) = logs s"
  by (simp_all add: commit_def syncRefs_def activationLogEffect_def setTimer_def clearTimer_def
      Let_def split: option.splits)

lemma commit_baselines:
  "lastAccelRef (commit s) = lastAccelRef s"
  "lastMagnetometerReadingRef (commit s) = lastMagnetometerReadingRef s"
  "isAlarmPlaying (commit s) = isAlarmPlaying s"
  by (simp_all add: commit_def syncRefs_def activationLogEffect_def setTimer_def clearTimer_def
      Let_def split: option.splits)

lemma timers_commit_inactive:
  assumes "\<not> isServiceActive s"
  shows "set (timers (commit s)) \<subseteq> set (timers s)"
  using assms
  by (auto simp: commit_def syncRefs_def activationLogEffect_def clearTimer_def Let_def
      split: option.splits)

lemma armingTimeout_unwanted:
  assumes "\<not> isServiceActiveRef s \<or> \<not> isArmingRef s"
  shows "armingTimeout s = s"
  using assms by (auto simp: armingTimeout_def)

lemma isServiceActive_armingTimeout: "isServiceActive (armingTimeout s) = isServiceActive s"
  by (simp add: armingTimeout_def)

lemma fireTimer_absent:
  assumes "t \<notin> timerId ` set (timers s)"
  shows "fireTimer p clk t s = s"
proof -
  have "find (\<lambda>tm. timerId tm = t) (timers s) = None"
    using assms by (auto simp: find_None_iff)
  then show ?thesis
    by (simp add: fireTimer_def)
qed

section \<open>Claims\<close>

subsection \<open>Baselines and first readings\<close>

text \<open>
  C1, as stated, fails. The state \<open>activeApp\<close> is the service right after the arming
  delay has elapsed: no reading has been delivered yet. The first gyroscope reading
  \<open>(1, 1, 1)\<close> starts the alarm, and so does a first proximity reading with
  \<open>near = true\<close>: neither handler keeps a baseline. The light sensor and the barometer
  store a baseline in their \<open>onactivate\<close> handler, so their first reading is compared
  with it: activated at 0 lux, a first reading of 100 lux starts the alarm, and so does
  a first pressure reading of 101400 Pa after an activation at 101325 Pa.
\<close>

theorem gyroscope_first_reading_triggers:
  "\<not> isAlarmPlaying activeApp
   \<and> isAlarmPlaying
        (gyroscopeOnreading examplePlatform (clockAt 4100) (Some 1, Some 1, Some 1) activeApp)
   \<and> isAlarmPlaying (proximityOnreading examplePlatform (clockAt 4100) (Some True) activeApp)
   \<and> isAlarmPlaying
        (lightOnreading examplePlatform (clockAt 4100) (Some 100)
           (lightOnactivate (Some 0) activeApp))
   \<and> isAlarmPlaying
        (barometerOnreading examplePlatform (clockAt 4100) (Some 101400)
           (barometerOnactivate (Some 101325) activeApp))"
proof -
  have gp: "\<not> isAlarmPlaying activeApp
   \<and> isAlarmPlaying
        (gyroscopeOnreading examplePlatform (clockAt 4100) (Some 1, Some 1, Some 1) activeApp)
   \<and> isAlarmPlaying (proximityOnreading examplePlatform (clockAt 4100) (Some True) activeApp)"
    by (simp add: activeApp_eq gyroscopeOnreading_def proximityOnreading_def falsy_def
      GYROSCOPE_THRESHOLD_def isAlarmPlaying_triggerAlarm)
  have lux: "jsSub 100 0 = 100"
    by (simp only: jsSub_def diff_zero fl_100)
  have d: "(101400::real) - 101325 = 75"
    by simp
  have pa: "jsSub 101400 101325 = 75"
    by (simp only: jsSub_def d fl_75)
  have light: "isAlarmPlaying
        (lightOnreading examplePlatform (clockAt 4100) (Some 100)
           (lightOnactivate (Some 0) activeApp))"
    by (simp add: activeApp_eq lightOnreading_def lightOnactivate_def lux
        LIGHT_CHANGE_THRESHOLD_LUX_def isAlarmPlaying_triggerAlarm)
  have baro: "isAlarmPlaying
        (barometerOnreading examplePlatform (clockAt 4100) (Some 101400)
           (barometerOnactivate (Some 101325) activeApp))"
    by (simp add: activeApp_eq barometerOnreading_def barometerOnactivate_def pa
        BAROMETER_CHANGE_THRESHOLD_PA_def isAlarmPlaying_triggerAlarm)
  show ?thesis
    using gp light baro by blast
qed

text \<open>
  C1, amended. For the accelerometer and the magnetometer, the first reading delivered
  after the service has entered Active (the arming callback has run in the arming
  service and the render has followed) never starts the alarm, whatever its magnitude:
  no baseline exists, a reading with three axes only becomes the baseline and nothing
  else in the state changes, and a reading with a missing axis changes nothing. For the
  light sensor and the barometer the same holds for a reading that finds no baseline.
\<close>

theorem first_reading_after_activation_only_seeds:
  assumes "isServiceActive a" and "isServiceActiveRef a" and "isArmingRef a"
    and "\<not> isAlarmPlaying a"
  shows "sensorsEnabled (commit (armingTimeout a))
       \<and> isServiceActiveRef (commit (armingTimeout a))
       \<and> \<not> isArmingRef (commit (armingTimeout a))
       \<and> \<not> isAlarmPlayingRef (commit (armingTimeout a))
       \<and> motionHandlerInternal p clk (Some (Some x, Some y, Some z)) (commit (armingTimeout a))
            = (commit (armingTimeout a))\<lparr>lastAccelRef := Some (x, y, z)\<rparr>
       \<and> magnetometerOnreading p clk (Some x, Some y, Some z) (commit (armingTimeout a))
            = (commit (armingTimeout a))\<lparr>lastMagnetometerReadingRef := Some (x, y, z)\<rparr>
       \<and> \<not> isAlarmPlaying (motionHandlerInternal p clk accel (commit (armingTimeout a)))
       \<and> \<not> isAlarmPlaying (magnetometerOnreading p clk mag (commit (armingTimeout a)))
       \<and> (isServiceActiveRef s \<and> \<not> isArmingRef s \<and> \<not> isAlarmPlayingRef s
            \<and> lastIlluminanceRef s = None \<longrightarrow>
            lightOnreading p clk (Some v) s = s\<lparr>lastIlluminanceRef := Some v\<rparr>)
       \<and> (isServiceActiveRef s \<and> \<not> isArmingRef s \<and> \<not> isAlarmPlayingRef s
            \<and> lastPressureRef s = None \<longrightarrow>
            barometerOnreading p clk (Some v) s = s\<lparr>lastPressureRef := Some v\<rparr>)"
proof -
  let ?act = "commit (armingTimeout a)"
  have cells: "isServiceActive (armingTimeout a)" "\<not> isArming (armingTimeout a)"
    "\<not> isAlarmPlaying (armingTimeout a)" "lastAccelRef (armingTimeout a) = None"
    "lastMagnetometerReadingRef (armingTimeout a) = None"
    using assms by (simp_all add: armingTimeout_def)
  have gate: "isServiceActiveRef ?act" "\<not> isArmingRef ?act" "\<not> isAlarmPlayingRef ?act"
    using cells by (simp_all add: commit_cells)
  have none: "lastAccelRef ?act = None" "lastMagnetometerReadingRef ?act = None"
    "\<not> isAlarmPlaying ?act"
    using cells by (simp_all add: commit_baselines)
  have enabled: "sensorsEnabled ?act"
    using cells by (simp add: sensorsEnabled_def commit_cells)
  have accel_seed: "motionHandlerInternal p clk (Some (Some x, Some y, Some z)) ?act
            = ?act\<lparr>lastAccelRef := Some (x, y, z)\<rparr>"
    using gate none by (simp add: motionHandlerInternal_def)
  have mag_seed: "magnetometerOnreading p clk (Some x, Some y, Some z) ?act
            = ?act\<lparr>lastMagnetometerReadingRef := Some (x, y, z)\<rparr>"
    using gate none by (simp add: magnetometerOnreading_def)
  have accel_any: "\<not> isAlarmPlaying (motionHandlerInternal p clk accel ?act)"
    using gate none
    by (auto simp: motionHandlerInternal_def split: option.splits prod.splits)
  have mag_any: "\<not> isAlarmPlaying (magnetometerOnreading p clk mag ?act)"
    using gate none
    by (auto simp: magnetometerOnreading_def split: option.splits prod.splits)
  have light: "lightOnreading p clk (Some v) s = s\<lparr>lastIlluminanceRef := Some v\<rparr>"
    if "isServiceActiveRef s \<and> \<not> isArmingRef s \<and> \<not> isAlarmPlayingRef s
          \<and> lastIlluminanceRef s = None"
    using that by (simp add: lightOnreading_def)
  have baro: "barometerOnreading p clk (Some v) s = s\<lparr>lastPressureRef := Some v\<rparr>"
    if "isServiceActiveRef s \<and> \<not> isArmingRef s \<and> \<not> isAlarmPlayingRef s
          \<and> lastPressureRef s = None"
    using that by (simp add: barometerOnreading_def)
  show ?thesis
    using enabled gate accel_seed mag_seed accel_any mag_any light baro by blast
qed

text \<open>The amended C1 on the example run, with readings far above every threshold.\<close>

theorem first_reading_after_activation_only_seeds_witness:
  "isServiceActive armingApp \<and> isServiceActiveRef armingApp \<and> isArmingRef armingApp
   \<and> \<not> isAlarmPlaying armingApp
   \<and> sensorsEnabled (commit (armingTimeout armingApp))
   \<and> motionHandlerInternal examplePlatform (clockAt 4100)
         (Some (Some 100, Some 100, Some 100)) (commit (armingTimeout armingApp))
       = (commit (armingTimeout armingApp))\<lparr>lastAccelRef := Some (100, 100, 100)\<rparr>
   \<and> magnetometerOnreading examplePlatform (clockAt 4100)
         (Some 100, Some 100, Some 100) (commit (armingTimeout armingApp))
       = (commit (armingTimeout armingApp))\<lparr>lastMagnetometerReadingRef := Some (100, 100, 100)\<rparr>
   \<and> \<not> isAlarmPlaying
        (motionHandlerInternal examplePlatform (clockAt 4100)
           (Some (Some 100, Some 100, Some 100)) (commit (armingTimeout armingApp)))
   \<and> isServiceActiveRef activeApp \<and> \<not> isArmingRef activeApp \<and> \<not> isAlarmPlayingRef activeApp
   \<and> lastIlluminanceRef activeApp = None \<and> lastPressureRef activeApp = None
   \<and> lightOnreading examplePlatform (clockAt 4100) (Some 1000) activeApp
       = activeApp\<lparr>lastIlluminanceRef := Some 1000\<rparr>
   \<and> barometerOnreading examplePlatform (clockAt 4100) (Some 1000) activeApp
       = activeApp\<lparr>lastPressureRef := Some 1000\<rparr>"
proof -
  have h: "isServiceActive armingApp" "isServiceActiveRef armingApp" "isArmingRef armingApp"
    "\<not> isAlarmPlaying armingApp"
    by (simp_all add: armingApp_eq)
  have g: "isServiceActiveRef activeApp \<and> \<not> isArmingRef activeApp \<and> \<not> isAlarmPlayingRef activeApp
    \<and> lastIlluminanceRef activeApp = None \<and> lastPressureRef activeApp = None"
    by (simp add: activeApp_eq)
  note first = first_reading_after_activation_only_seeds
                 [OF h, where p = examplePlatform and clk = "clockAt 4100"
                    and x = 100 and y = 100 and z = 100 and v = 1000 and s = activeApp
                    and accel = "Some (Some 100, Some 100, Some 100)"]
  show ?thesis
    using first h g by blast
qed

subsection \<open>The gyroscope detector\<close>

text \<open>
  C2, as stated, fails. After a gyroscope reading \<open>(0.5, 0.5, 0.5)\<close> the reading
  \<open>(-0.5, -0.5, -0.5)\<close> differs from it by 1.0 on every axis, which the specification's
  detector counts as a trigger; the handler does not start the alarm.
\<close>

theorem gyroscope_delta_counterexample:
  "gyroscopeTriggersSpec (0.5, 0.5, 0.5) (- 0.5, - 0.5, - 0.5)
   \<and> \<not> isAlarmPlaying
        (gyroscopeOnreading examplePlatform (clockAt 4200)
           (Some (- 0.5), Some (- 0.5), Some (- 0.5))
           (gyroscopeOnreading examplePlatform (clockAt 4100)
              (Some 0.5, Some 0.5, Some 0.5) activeApp))"
  by (simp add: gyroscopeTriggersSpec_def gyroscopeDeltaSpec_def activeApp_eq
      gyroscopeOnreading_def falsy_def GYROSCOPE_THRESHOLD_def)

text \<open>
  C2, amended. The gyroscope handler looks at the current reading alone: delivered to
  the active, silent service with three non-zero axes, it starts the alarm exactly when
  the absolute value of at least one axis exceeds 0.7 rad/s.
\<close>

theorem gyroscope_triggers_iff:
  assumes "isServiceActiveRef s" and "\<not> isArmingRef s" and "\<not> isAlarmPlayingRef s"
    and "\<not> isAlarmPlaying s" and "x \<noteq> 0" and "y \<noteq> 0" and "z \<noteq> 0"
  shows "isAlarmPlaying (gyroscopeOnreading p clk (Some x, Some y, Some z) s)
         \<longleftrightarrow> (\<bar>x\<bar> > 0.7 \<or> \<bar>y\<bar> > 0.7 \<or> \<bar>z\<bar> > 0.7)"
  using assms
  by (simp add: gyroscopeOnreading_def falsy_def GYROSCOPE_THRESHOLD_def
      isAlarmPlaying_triggerAlarm)

text \<open>
  The amended C2 on the example run: one axis at 0.8 triggers, axes at 0.7 and -0.7
  (exactly at the threshold) do not.
\<close>

theorem gyroscope_triggers_iff_witness:
  "isServiceActiveRef activeApp \<and> \<not> isArmingRef activeApp \<and> \<not> isAlarmPlayingRef activeApp
   \<and> \<not> isAlarmPlaying activeApp
   \<and> isAlarmPlaying
        (gyroscopeOnreading examplePlatform (clockAt 4100) (Some 0.8, Some 0.1, Some 0.1) activeApp)
   \<and> \<not> isAlarmPlaying
        (gyroscopeOnreading examplePlatform (clockAt 4100) (Some 0.7, Some 0.1, Some (- 0.7))
           activeApp)"
proof -
  have g: "isServiceActiveRef activeApp" "\<not> isArmingRef activeApp" "\<not> isAlarmPlayingRef activeApp"
    "\<not> isAlarmPlaying activeApp"
    by (simp_all add: activeApp_eq)
  show ?thesis
    using gyroscope_triggers_iff [OF g, where x = "0.8" and y = "0.1" and z = "0.1"
          and p = examplePlatform and clk = "clockAt 4100"]
      gyroscope_triggers_iff [OF g, where x = "0.7" and y = "0.1" and z = "- 0.7"
          and p = examplePlatform and clk = "clockAt 4100"] g
    by simp
qed

text \<open>
  C10. A gyroscope reading in which some axis is 0, \<open>null\<close> or \<open>undefined\<close> is
  ignored: the handler returns without any change of state, whatever the other axes are.
\<close>

theorem gyroscope_zero_or_missing_axis_ignored:
  assumes "x \<in> {None, Some 0} \<or> y \<in> {None, Some 0} \<or> z \<in> {None, Some 0}"
  shows "gyroscopeOnreading p clk (x, y, z) s = s"
  using assms by (auto simp: gyroscopeOnreading_def falsy_def)

text \<open>C10 on the example run: axes of 9 rad/s beside a zero axis do not start the alarm.\<close>

theorem gyroscope_zero_or_missing_axis_ignored_witness:
  "(Some 9 \<in> {None, Some (0::real)} \<or> Some 0 \<in> {None, Some (0::real)}
      \<or> Some 9 \<in> {None, Some (0::real)})
   \<and> gyroscopeOnreading examplePlatform (clockAt 4100) (Some 9, Some 0, Some 9) activeApp
       = activeApp
   \<and> gyroscopeOnreading examplePlatform (clockAt 4100) (Some 9, Some 9, None) activeApp
       = activeApp
   \<and> \<not> isAlarmPlaying
        (gyroscopeOnreading examplePlatform (clockAt 4100) (Some 9, Some 0, Some 9) activeApp)"
proof -
  have h: "Some 9 \<in> {None, Some (0::real)} \<or> Some 0 \<in> {None, Some (0::real)}
             \<or> Some 9 \<in> {None, Some (0::real)}"
    by simp
  have h': "Some 9 \<in> {None, Some (0::real)} \<or> Some 9 \<in> {None, Some (0::real)}
             \<or> None \<in> {None, Some (0::real)}"
    by simp
  have "\<not> isAlarmPlaying activeApp"
    by (simp add: activeApp_eq)
  then show ?thesis
    using gyroscope_zero_or_missing_axis_ignored [OF h, of examplePlatform "clockAt 4100" activeApp]
      gyroscope_zero_or_missing_axis_ignored [OF h', of examplePlatform "clockAt 4100" activeApp]
    by simp
qed

subsection \<open>The accelerometer detector\<close>

text \<open>
  C6, as stated, fails. From the baseline \<open>(0, 0, 0)\<close> take the reading with the doubles
  \<open>x = 0.25\<close> and \<open>y = 2456423590728271 / 2^52\<close> (0.5454356057317857) and \<open>z = 0\<close>. The
  Euclidean norm of the differences is above 0.6, so the specification's detector
  triggers; the handler computes the norm in double arithmetic, gets the double 0.6
  itself, and does not start the alarm.
\<close>

theorem accelerometer_exact_norm_counterexample:
  "fl (1 / 4) = 1 / 4
   \<and> fl (2456423590728271 / 4503599627370496) = 2456423590728271 / 4503599627370496
   \<and> accelerometerTriggersSpec (0, 0, 0) (1 / 4, 2456423590728271 / 4503599627370496, 0)
   \<and> \<not> isAlarmPlaying
        (motionHandlerInternal examplePlatform (clockAt 5000)
           (Some (Some (1 / 4), Some (2456423590728271 / 4503599627370496), Some 0))
           (activeApp\<lparr>lastAccelRef := Some (0, 0, 0)\<rparr>))"
proof -
  have spec: "accelerometerTriggersSpec (0, 0, 0) (1 / 4, 2456423590728271 / 4503599627370496, 0)"
    using edge_exact by (simp add: accelerometerTriggersSpec_def accelerometerDeltaSpec_def)
  have code: "\<not> isAlarmPlaying
        (motionHandlerInternal examplePlatform (clockAt 5000)
           (Some (Some (1 / 4), Some (2456423590728271 / 4503599627370496), Some 0))
           (activeApp\<lparr>lastAccelRef := Some (0, 0, 0)\<rparr>))"
  proof -
    let ?edge = "activeApp\<lparr>lastAccelRef := Some (0, 0, 0)\<rparr>"
    have g: "isServiceActiveRef ?edge" "\<not> isArmingRef ?edge" "\<not> isAlarmPlayingRef ?edge"
      "\<not> isAlarmPlaying ?edge" "lastAccelRef ?edge = Some (0, 0, 0)"
      by (simp_all add: activeApp_eq)
    show ?thesis
      unfolding motionHandlerInternal_alarm [OF g] edge_norm by simp
  qed
  show ?thesis
    using spec code fl_quarter fl_edge_y by blast
qed

text \<open>
  C6, amended. For the accelerometer with a stored baseline, a reading delivered to the
  active, silent service starts the alarm if and only if the norm as the handler
  computes it is strictly greater than the double 0.6: the per-axis differences, their
  squares, the two sums and the square root are each rounded to the nearest double. The
  reading becomes the new baseline either way. In particular, with baseline
  \<open>(0, 0, 9.8)\<close> the reading \<open>(0, 0, 11.0)\<close> has the computed norm
  \<open>337769972052787 / 2^48\<close> (1.1999999999999993) and starts the alarm.
\<close>

theorem accelerometer_triggers_iff_computed_norm:
  assumes "isServiceActiveRef s" and "\<not> isArmingRef s" and "\<not> isAlarmPlayingRef s"
    and "\<not> isAlarmPlaying s" and "lastAccelRef s = Some (lx, ly, lz)"
  shows "(isAlarmPlaying (motionHandlerInternal p clk (Some (Some x, Some y, Some z)) s)
          \<longleftrightarrow> mathSqrt (jsAdd (jsAdd (jsMul \<bar>jsSub x lx\<bar> \<bar>jsSub x lx\<bar>)
                                    (jsMul \<bar>jsSub y ly\<bar> \<bar>jsSub y ly\<bar>))
                             (jsMul \<bar>jsSub z lz\<bar> \<bar>jsSub z lz\<bar>)) > fl 0.6)
       \<and> lastAccelRef (motionHandlerInternal p clk (Some (Some x, Some y, Some z)) s)
            = Some (x, y, z)
       \<and> ((lx, ly, lz) = (0, 0, fl 9.8) \<and> (x, y, z) = (0, 0, 11.0) \<longrightarrow>
            mathSqrt (jsAdd (jsAdd (jsMul \<bar>jsSub x lx\<bar> \<bar>jsSub x lx\<bar>)
                                   (jsMul \<bar>jsSub y ly\<bar> \<bar>jsSub y ly\<bar>))
                            (jsMul \<bar>jsSub z lz\<bar> \<bar>jsSub z lz\<bar>))
              = 337769972052787 / 281474976710656
          \<and> isAlarmPlaying (motionHandlerInternal p clk (Some (Some x, Some y, Some z)) s))"
proof -
  let ?n = "mathSqrt (jsAdd (jsAdd (jsMul \<bar>jsSub x lx\<bar> \<bar>jsSub x lx\<bar>)
                                    (jsMul \<bar>jsSub y ly\<bar> \<bar>jsSub y ly\<bar>))
                             (jsMul \<bar>jsSub z lz\<bar> \<bar>jsSub z lz\<bar>))"
  have iff: "isAlarmPlaying (motionHandlerInternal p clk (Some (Some x, Some y, Some z)) s)
          \<longleftrightarrow> ?n > fl 0.6"
    using assms by (rule motionHandlerInternal_alarm)
  have base: "lastAccelRef (motionHandlerInternal p clk (Some (Some x, Some y, Some z)) s)
            = Some (x, y, z)"
    using assms by (simp add: motionHandlerInternal_def Let_def)
  have above: "(5404319552844595 / 9007199254740992 :: real) < 337769972052787 / 281474976710656"
    by simp
  have ex: "?n = 337769972052787 / 281474976710656 \<and> ?n > fl 0.6"
    if "(lx, ly, lz) = (0, 0, fl 9.8) \<and> (x, y, z) = (0, 0, 11.0)"
  proof -
    have v: "lx = 0" "ly = 0" "lz = fl 9.8" "x = 0" "y = 0" "z = 11"
      using that by simp_all
    have n: "?n = 337769972052787 / 281474976710656"
      unfolding v by (rule example_norm)
    show ?thesis
      unfolding n threshold_value using above by simp
  qed
  show ?thesis
    using iff base ex by blast
qed

text \<open>
  The amended C6 on the example run: the scenario reading starts the alarm, and the
  reading whose computed norm is exactly the double 0.6 does not.
\<close>

theorem accelerometer_triggers_iff_computed_norm_witness:
  "isServiceActiveRef (activeApp\<lparr>lastAccelRef := Some (0, 0, fl 9.8)\<rparr>)
   \<and> \<not> isArmingRef (activeApp\<lparr>lastAccelRef := Some (0, 0, fl 9.8)\<rparr>)
   \<and> \<not> isAlarmPlayingRef (activeApp\<lparr>lastAccelRef := Some (0, 0, fl 9.8)\<rparr>)
   \<and> \<not> isAlarmPlaying (activeApp\<lparr>lastAccelRef := Some (0, 0, fl 9.8)\<rparr>)
   \<and> lastAccelRef (activeApp\<lparr>lastAccelRef := Some (0, 0, fl 9.8)\<rparr>) = Some (0, 0, fl 9.8)
   \<and> isAlarmPlaying (motionHandlerInternal examplePlatform (clockAt 5000)
         (Some (Some 0, Some 0, Some 11.0)) (activeApp\<lparr>lastAccelRef := Some (0, 0, fl 9.8)\<rparr>))
   \<and> \<not> isAlarmPlaying (motionHandlerInternal examplePlatform (clockAt 5000)
         (Some (Some (1 / 4), Some (2456423590728271 / 4503599627370496), Some 0))
         (activeApp\<lparr>lastAccelRef := Some (0, 0, 0)\<rparr>))"
proof -
  let ?s = "activeApp\<lparr>lastAccelRef := Some (0, 0, fl 9.8)\<rparr>"
  let ?edge = "activeApp\<lparr>lastAccelRef := Some (0, 0, 0)\<rparr>"
  have g: "isServiceActiveRef ?s" "\<not> isArmingRef ?s" "\<not> isAlarmPlayingRef ?s"
    "\<not> isAlarmPlaying ?s" "lastAccelRef ?s = Some (0, 0, fl 9.8)"
    by (simp_all add: activeApp_eq)
  have g0: "isServiceActiveRef ?edge" "\<not> isArmingRef ?edge" "\<not> isAlarmPlayingRef ?edge"
    "\<not> isAlarmPlaying ?edge" "lastAccelRef ?edge = Some (0, 0, 0)"
    by (simp_all add: activeApp_eq)
  have a: "isAlarmPlaying (motionHandlerInternal examplePlatform (clockAt 5000)
         (Some (Some 0, Some 0, Some 11.0)) ?s)"
    using accelerometer_triggers_iff_computed_norm
            [OF g, where x = 0 and y = 0 and z = "11.0"
               and p = examplePlatform and clk = "clockAt 5000"]
    by blast
  have "isAlarmPlaying (motionHandlerInternal examplePlatform (clockAt 5000)
         (Some (Some (1 / 4), Some (2456423590728271 / 4503599627370496), Some 0)) ?edge)
       \<longleftrightarrow> mathSqrt (jsAdd (jsAdd (jsMul \<bar>jsSub (1 / 4) 0\<bar> \<bar>jsSub (1 / 4) 0\<bar>)
                          (jsMul \<bar>jsSub (2456423590728271 / 4503599627370496) 0\<bar>
                                 \<bar>jsSub (2456423590728271 / 4503599627370496) 0\<bar>))
                   (jsMul \<bar>jsSub 0 0\<bar> \<bar>jsSub 0 0\<bar>)) > fl 0.6"
    using accelerometer_triggers_iff_computed_norm
            [OF g0, where x = "1 / 4" and y = "2456423590728271 / 4503599627370496" and z = 0
               and p = examplePlatform and clk = "clockAt 5000"]
    by blast
  then have b: "\<not> isAlarmPlaying (motionHandlerInternal examplePlatform (clockAt 5000)
         (Some (Some (1 / 4), Some (2456423590728271 / 4503599627370496), Some 0)) ?edge)"
    unfolding edge_norm by simp
  show ?thesis
    using g a b by blast
qed

subsection \<open>The trigger path and the alarm engine\<close>

text \<open>
  C3, evaluated where the code departs from it. In \<open>triggeredApp\<close> a proximity
  detection has made the service alarming (\<open>isAlarmPlaying\<close> is set, one log entry is
  written, one burst is played and the repeat interval is timer 3), but no render has
  run yet, so \<open>isAlarmPlayingRef\<close> still reads false. A gyroscope detection delivered now
  passes the guard of \<open>triggerAlarm\<close>: it appends a second incident entry and restarts
  the siren (second burst, interval scheduled anew as timer 4). Once the render has
  refreshed the ref (\<open>alarmingApp\<close>), the same detection is a no-op.
\<close>

theorem second_detection_before_render_retriggers:
  "isAlarmPlaying triggeredApp \<and> \<not> isAlarmPlayingRef triggeredApp
   \<and> length (logs triggeredApp) = 3
   \<and> burstsStarted triggeredApp = 1
   \<and> timers triggeredApp = [Timer 3 SirenBurst 1000 True]
   \<and> gyroscopeOnreading examplePlatform (clockAt 5001) (Some 1, Some 1, Some 1) triggeredApp
       \<noteq> triggeredApp
   \<and> length (logs (gyroscopeOnreading examplePlatform (clockAt 5001)
                      (Some 1, Some 1, Some 1) triggeredApp)) = 4
   \<and> message (hd (logs (gyroscopeOnreading examplePlatform (clockAt 5001)
                          (Some 1, Some 1, Some 1) triggeredApp)))
       = ''Rotacao (Giroscopio) detectada! (Geolocalizacao nao suportada)''
   \<and> burstsStarted (gyroscopeOnreading examplePlatform (clockAt 5001)
                       (Some 1, Some 1, Some 1) triggeredApp) = 2
   \<and> timers (gyroscopeOnreading examplePlatform (clockAt 5001)
                (Some 1, Some 1, Some 1) triggeredApp) = [Timer 4 SirenBurst 1000 True]
   \<and> alarmingApp = commit triggeredApp
   \<and> gyroscopeOnreading examplePlatform (clockAt 5001) (Some 1, Some 1, Some 1) alarmingApp
       = alarmingApp
   \<and> triggerAlarm examplePlatform (clockAt 5001) ''Rotacao (Giroscopio) detectada!'' alarmingApp
       = alarmingApp"
proof -
  let ?second = "gyroscopeOnreading examplePlatform (clockAt 5001)
                   (Some 1, Some 1, Some 1) triggeredApp"
  have call: "?second
      = triggerAlarm examplePlatform (clockAt 5001) ''Rotacao (Giroscopio) detectada!'' triggeredApp"
    by (simp add: triggeredApp_eq gyroscopeOnreading_def falsy_def GYROSCOPE_THRESHOLD_def)
  have l: "logs ?second
      = newLog (clockAt 5001) ''Rotacao (Giroscopio) detectada! (Geolocalizacao nao suportada)'' None
          # logs triggeredApp"
    unfolding call
    by (simp add: triggeredApp_eq triggerAlarm_def startAlarmSound_def getAudioContext_def
        playSirenBurst_def setTimer_def clearIfSet_def clearTimer_def appendErrorMessage_def
        addLogEntry_def examplePlatform_def Let_def)
  have b: "burstsStarted ?second = 2"
    unfolding call
    by (simp add: triggeredApp_eq triggerAlarm_def startAlarmSound_def getAudioContext_def
        playSirenBurst_def setTimer_def clearIfSet_def clearTimer_def appendErrorMessage_def
        addLogEntry_def examplePlatform_def Let_def)
  have t: "timers ?second = [Timer 4 SirenBurst 1000 True]"
    unfolding call
    by (simp add: triggeredApp_eq triggerAlarm_def startAlarmSound_def getAudioContext_def
        playSirenBurst_def setTimer_def clearIfSet_def clearTimer_def appendErrorMessage_def
        addLogEntry_def examplePlatform_def ALARM_SOUND_INTERVAL_MS_def Let_def)
  have first: "isAlarmPlaying triggeredApp" "\<not> isAlarmPlayingRef triggeredApp"
    "length (logs triggeredApp) = 3" "burstsStarted triggeredApp = 1"
    "timers triggeredApp = [Timer 3 SirenBurst 1000 True]"
    by (simp_all add: triggeredApp_eq)
  have ne: "?second \<noteq> triggeredApp"
    using b first(4) by auto
  have same: "alarmingApp = commit triggeredApp"
    by (simp add: alarmingApp_def triggeredApp_def proximityOnreading_def activeApp_eq)
  have noop: "gyroscopeOnreading examplePlatform (clockAt 5001) (Some 1, Some 1, Some 1) alarmingApp
       = alarmingApp"
    "triggerAlarm examplePlatform (clockAt 5001) ''Rotacao (Giroscopio) detectada!'' alarmingApp
       = alarmingApp"
    by (simp_all add: alarmingApp_eq gyroscopeOnreading_def triggerAlarm_def)
  show ?thesis
    using first ne l b t same noop by (simp add: newLog_def)
qed

text \<open>
  In \<open>triggeredApp\<close> the gate of the reading handlers is open (the refs read active,
  not arming, not alarming), which is why the second detection reaches \<open>triggerAlarm\<close>.
\<close>

theorem second_detection_before_render_retriggers_witness:
  "isServiceActiveRef triggeredApp \<and> \<not> isArmingRef triggeredApp
   \<and> \<not> isAlarmPlayingRef triggeredApp \<and> isAlarmPlaying triggeredApp
   \<and> length (logs triggeredApp) = 3
   \<and> length (logs (gyroscopeOnreading examplePlatform (clockAt 5001)
                      (Some 1, Some 1, Some 1) triggeredApp)) = 4
   \<and> burstsStarted (gyroscopeOnreading examplePlatform (clockAt 5001)
                       (Some 1, Some 1, Some 1) triggeredApp) = 2"
proof -
  have gate: "isServiceActiveRef triggeredApp" "\<not> isArmingRef triggeredApp"
    by (simp_all add: triggeredApp_eq)
  show ?thesis
    using second_detection_before_render_retriggers gate by blast
qed

text \<open>
  C9, as stated, fails. In \<open>alarmingApp\<close> the siren is running: the audio context runs,
  one burst has been played and the repeat interval is timer 3. Calling
  \<open>startAlarmSound\<close> again changes the state: a second burst is played at once and
  the interval is cancelled and scheduled anew as timer 4.
\<close>

theorem startAlarmSound_restart_counterexample:
  "audioContextRef alarmingApp = Some Running \<and> alarmIntervalRef alarmingApp = Some 3
   \<and> timers alarmingApp = [Timer 3 SirenBurst 1000 True]
   \<and> burstsStarted alarmingApp = 1
   \<and> startAlarmSound examplePlatform alarmingApp \<noteq> alarmingApp
   \<and> burstsStarted (startAlarmSound examplePlatform alarmingApp) = 2
   \<and> timers (startAlarmSound examplePlatform alarmingApp)
       = [Timer 4 SirenBurst 1000 True]"
proof -
  have b: "burstsStarted (startAlarmSound examplePlatform alarmingApp) = 2"
    by (simp add: alarmingApp_eq startAlarmSound_def getAudioContext_def playSirenBurst_def
        setTimer_def clearIfSet_def clearTimer_def)
  have t: "timers (startAlarmSound examplePlatform alarmingApp)
       = [Timer 4 SirenBurst 1000 True]"
    by (simp add: alarmingApp_eq startAlarmSound_def getAudioContext_def playSirenBurst_def
        setTimer_def clearIfSet_def clearTimer_def ALARM_SOUND_INTERVAL_MS_def)
  have o: "burstsStarted alarmingApp = 1"
    by (simp add: alarmingApp_eq)
  have "startAlarmSound examplePlatform alarmingApp \<noteq> alarmingApp"
    using b o by auto
  then show ?thesis
    using b t by (simp add: alarmingApp_eq)
qed

text \<open>
  C9, amended. \<open>startAlarmSound\<close> restarts a running siren: with the audio context
  running and a repeat interval scheduled, it cancels that interval, plays one more
  burst at once and schedules a new repeating interval of 1000 ms, which becomes the
  one held in \<open>alarmIntervalRef\<close>; the cancelled interval never fires again.
\<close>

theorem startAlarmSound_restarts:
  assumes "audioContextRef s = Some Running" and "alarmIntervalRef s = Some t" and "t \<noteq> 0"
  shows "burstsStarted (startAlarmSound p s) = Suc (burstsStarted s)
       \<and> oscillatorRef (startAlarmSound p s) = Some (burstsStarted s)
       \<and> timers (startAlarmSound p s)
            = filter (\<lambda>tm. timerId tm \<noteq> t) (timers s)
                @ [Timer (nextTimerId s) SirenBurst 1000 True]
       \<and> alarmIntervalRef (startAlarmSound p s) = Some (nextTimerId s)"
  using assms
  by (simp add: startAlarmSound_def getAudioContext_def playSirenBurst_def
        setTimer_def clearIfSet_def clearTimer_def ALARM_SOUND_INTERVAL_MS_def)

text \<open>The amended C9 on the example run.\<close>

theorem startAlarmSound_restarts_witness:
  "audioContextRef alarmingApp = Some Running \<and> alarmIntervalRef alarmingApp = Some 3
   \<and> (3::nat) \<noteq> 0
   \<and> burstsStarted (startAlarmSound examplePlatform alarmingApp) = Suc (burstsStarted alarmingApp)
   \<and> alarmIntervalRef (startAlarmSound examplePlatform alarmingApp) = Some 4
   \<and> timers (startAlarmSound examplePlatform alarmingApp)
        = [Timer 4 SirenBurst 1000 True]"
proof -
  have h: "audioContextRef alarmingApp = Some Running" "alarmIntervalRef alarmingApp = Some 3"
    "(3::nat) \<noteq> 0"
    by (simp_all add: alarmingApp_eq)
  have "nextTimerId alarmingApp = 4"
    "timers alarmingApp = [Timer 3 SirenBurst 1000 True]"
    by (simp_all add: alarmingApp_eq)
  then show ?thesis
    using startAlarmSound_restarts [OF h, of examplePlatform] h by simp
qed

subsection \<open>Stopping and deactivating\<close>

text \<open>
  C4, evaluated on the example run. The user stops the alarm in \<open>alarmingApp\<close>:
  the service becomes inactive, the siren's interval is cancelled and its nodes are
  released, the four baselines are empty and the advisory text reads "Alarme parado.
  Servico DESATIVADO." But the incident log is the same as before: \<open>stopAlarm\<close> appends
  no entry. The other way to stop the alarm, \<open>toggleService\<close>, calls \<open>stopAlarm\<close> and
  then does append the entry "Servico DESATIVADO pelo usuario."
\<close>

theorem stopAlarm_appends_no_log_entry:
  "isAlarmPlaying alarmingApp \<and> isAlarmPlayingRef alarmingApp
   \<and> \<not> isServiceActive (stopAlarm alarmingApp)
   \<and> \<not> isArming (stopAlarm alarmingApp)
   \<and> \<not> isAlarmPlaying (stopAlarm alarmingApp)
   \<and> alarmIntervalRef (stopAlarm alarmingApp) = None
   \<and> oscillatorRef (stopAlarm alarmingApp) = None
   \<and> timers (stopAlarm alarmingApp) = []
   \<and> lastAccelRef (stopAlarm alarmingApp) = None
   \<and> lastIlluminanceRef (stopAlarm alarmingApp) = None
   \<and> lastMagnetometerReadingRef (stopAlarm alarmingApp) = None
   \<and> lastPressureRef (stopAlarm alarmingApp) = None
   \<and> errorMessage (stopAlarm alarmingApp) = Some ''Alarme parado. Servico DESATIVADO.''
   \<and> logs (stopAlarm alarmingApp) = logs alarmingApp
   \<and> message (hd (logs (toggleService examplePlatform (clockAt 6000) alarmingApp)))
       = ''Servico DESATIVADO pelo usuario.''"
  by (simp add: alarmingApp_eq stopAlarm_def stopAlarmSound_def clearTimer_def clearIfSet_def
      toggleService_def getAudioContext_def addLogEntry_def newLog_def Let_def)

text \<open>
  C5. The user toggles while the service is arming, the arming timer being \<open>t\<close>. Then
  the service is neither active nor arming; timer \<open>t\<close> is no longer pending, so firing
  it does nothing; the arming callback itself would not make the service active even
  if it ran before the next render, and after the render it is a no-op; the test that
  opens every sensor effect fails; the log has gained the deactivation entry only; and
  the render has scheduled no timer (in particular none for the activation log entry).
\<close>

theorem deactivation_during_arming_prevents_activation:
  assumes "isArmingRef s" and "armingTimeoutRef s = Some t" and "t \<noteq> 0"
  shows "\<not> isServiceActive (toggleService p clk s)
       \<and> \<not> isArming (toggleService p clk s)
       \<and> t \<notin> timerId ` set (timers (toggleService p clk s))
       \<and> fireTimer p clk' t (toggleService p clk s) = toggleService p clk s
       \<and> \<not> isServiceActive (armingTimeout (toggleService p clk s))
       \<and> armingTimeout (commit (toggleService p clk s)) = commit (toggleService p clk s)
       \<and> \<not> sensorsEnabled (commit (toggleService p clk s))
       \<and> logs (commit (toggleService p clk s))
            = newLog clk ''Servico DESATIVADO pelo usuario.'' None # take 49 (logs s)
       \<and> set (timers (commit (toggleService p clk s))) \<subseteq> set (timers s)"
proof -
  let ?off = "toggleService p clk s"
  have gate: "isServiceActiveRef s \<or> isArmingRef s"
    using assms(1) by simp
  note off = toggleService_off [OF gate, of p clk]
  have cleared: "timers (clearIfSet (armingTimeoutRef s) s)
                   = filter (\<lambda>tm. timerId tm \<noteq> t) (timers s)"
    using assms(2,3) by (simp add: clearIfSet_def clearTimer_def)
  have gone: "t \<notin> timerId ` set (timers ?off)"
    using off(6) cleared by auto
  have sub: "set (timers ?off) \<subseteq> set (timers s)"
    using off(6) cleared by auto
  have unwanted: "\<not> isServiceActiveRef (commit ?off) \<or> \<not> isArmingRef (commit ?off)"
    using off(1) by (simp add: commit_cells)
  have "set (timers (commit ?off)) \<subseteq> set (timers ?off)"
    using off(1) by (rule timers_commit_inactive)
  then have sub': "set (timers (commit ?off)) \<subseteq> set (timers s)"
    using sub by blast
  show ?thesis
    using off(1,2,3) gone fireTimer_absent [OF gone] armingTimeout_unwanted [OF unwanted] sub'
    by (simp add: commit_cells sensorsEnabled_def isServiceActive_armingTimeout)
qed

text \<open>C5 on the example run: the toggle comes one second into the arming delay.\<close>

theorem deactivation_during_arming_prevents_activation_witness:
  "isArmingRef armingApp \<and> armingTimeoutRef armingApp = Some 1 \<and> (1::nat) \<noteq> 0
   \<and> timerId ` set (timers armingApp) = {1}
   \<and> \<not> isServiceActive (toggleService examplePlatform (clockAt 2000) armingApp)
   \<and> 1 \<notin> timerId ` set (timers (toggleService examplePlatform (clockAt 2000) armingApp))
   \<and> fireTimer examplePlatform (clockAt 4000) 1
         (toggleService examplePlatform (clockAt 2000) armingApp)
       = toggleService examplePlatform (clockAt 2000) armingApp
   \<and> armingTimeout (commit (toggleService examplePlatform (clockAt 2000) armingApp))
       = commit (toggleService examplePlatform (clockAt 2000) armingApp)
   \<and> \<not> sensorsEnabled (commit (toggleService examplePlatform (clockAt 2000) armingApp))"
proof -
  have h: "isArmingRef armingApp" "armingTimeoutRef armingApp = Some 1" "(1::nat) \<noteq> 0"
    by (simp_all add: armingApp_eq)
  have "timerId ` set (timers armingApp) = {1}"
    by (simp add: armingApp_eq)
  then show ?thesis
    using deactivation_during_arming_prevents_activation
            [OF h, of examplePlatform "clockAt 2000" "clockAt 4000"] h
    by simp
qed

subsection \<open>The incident log\<close>

text \<open>
  C7. Appending prepends the new entry and keeps the 49 most recent of the previous
  entries in their order, so the log never grows beyond 50: its length is the smaller
  of 50 and the previous length plus one. For a log of 50 entries the result has
  exactly 50 entries, the new one first, then the previous entries without the last
  (oldest) one.
\<close>

theorem addLogEntry_prepends_and_truncates:
  "logs (addLogEntry clk msg coords s) = newLog clk msg coords # take 49 (logs s)
   \<and> hd (logs (addLogEntry clk msg coords s)) = newLog clk msg coords
   \<and> message (hd (logs (addLogEntry clk msg coords s))) = msg
   \<and> coordinates (hd (logs (addLogEntry clk msg coords s))) = coords
   \<and> tl (logs (addLogEntry clk msg coords s)) = take 49 (logs s)
   \<and> length (logs (addLogEntry clk msg coords s)) = min 50 (length (logs s) + 1)
   \<and> (length (logs s) < 50 \<longrightarrow> tl (logs (addLogEntry clk msg coords s)) = logs s)
   \<and> (length (logs s) = 50 \<longrightarrow>
          length (logs (addLogEntry clk msg coords s)) = 50
        \<and> tl (logs (addLogEntry clk msg coords s)) = butlast (logs s))"
proof -
  have eq: "logs (addLogEntry clk msg coords s) = newLog clk msg coords # take 49 (logs s)"
    by (simp add: addLogEntry_def)
  have full: "take 49 (logs s) = butlast (logs s)" if "length (logs s) = 50"
    using that by (simp add: butlast_conv_take)
  have len: "length (newLog clk msg coords # take 49 (logs s)) = min 50 (length (logs s) + 1)"
    by (simp add: min_def)
  have new: "message (newLog clk msg coords) = msg" "coordinates (newLog clk msg coords) = coords"
    by (simp_all add: newLog_def)
  show ?thesis
    unfolding eq using full len new by auto
qed

text \<open>
  C7 on a log holding the 50 entries made at the clock readings 49 down to 0, and on
  the log of the example run, which holds two.
\<close>

theorem addLogEntry_prepends_and_truncates_witness:
  "length (logs fullLogApp) = 50
   \<and> length (logs (addLogEntry (clockAt 50) ''Giroscopio ativado.'' None fullLogApp)) = 50
   \<and> message (hd (logs (addLogEntry (clockAt 50) ''Giroscopio ativado.'' None fullLogApp)))
       = ''Giroscopio ativado.''
   \<and> tl (logs (addLogEntry (clockAt 50) ''Giroscopio ativado.'' None fullLogApp))
       = butlast (logs fullLogApp)
   \<and> length (logs activeApp) < 50
   \<and> tl (logs (addLogEntry (clockAt 4001) ''Giroscopio ativado.'' None activeApp))
       = logs activeApp"
proof -
  have len: "length (logs fullLogApp) = 50"
    by (simp add: fullLogApp_def)
  have two: "length (logs activeApp) < 50"
    by (simp add: activeApp_eq)
  note full = addLogEntry_prepends_and_truncates
                [of "clockAt 50" "''Giroscopio ativado.''" None fullLogApp]
  note short = addLogEntry_prepends_and_truncates
                 [of "clockAt 4001" "''Giroscopio ativado.''" None activeApp]
  show ?thesis
    using full short len two by blast
qed

text \<open>
  C8, evaluated where the code departs from it. Two entries appended while
  \<open>Date.now()\<close> returns the same millisecond (here 4000, as for the entries that two
  sensor effects append in the same render) carry the same id: the ids in the log are
  not distinct, although the two entries differ.
\<close>

theorem same_millisecond_same_id:
  "map id' (logs (addLogEntry (clockAt 4000) ''Giroscopio ativado.'' None
                   (addLogEntry (clockAt 4000) ''Acelerometro ativado.'' None initialApp)))
     = [''4000'', ''4000'']
   \<and> map message (logs (addLogEntry (clockAt 4000) ''Giroscopio ativado.'' None
                   (addLogEntry (clockAt 4000) ''Acelerometro ativado.'' None initialApp)))
     = [''Giroscopio ativado.'', ''Acelerometro ativado.'']
   \<and> \<not> distinct (map id' (logs (addLogEntry (clockAt 4000) ''Giroscopio ativado.'' None
                   (addLogEntry (clockAt 4000) ''Acelerometro ativado.'' None initialApp))))"
  by (simp add: addLogEntry_def newLog_def clockAt_def initialApp_def toString_4000)

end
